theory Spec2Isabelle
  imports Complex_Main "HOL-Library.AList" "HOL-Library.Sublist"
begin

section \<open>DayPilot: a shallow embedding of the planning backend\<close>

text \<open>
  Modelling conventions.
  \<^item> Python \<open>float\<close> values are real numbers (exact arithmetic); \<open>int\<close> values are
    integers.
  \<^item> A Python \<open>str\<close> is a \<open>string\<close>; its characters are the code points below 256.
  \<^item> A calendar date is its ordinal day number. \<open>date.isoformat()\<close> is injective and
    keeps the order of dates, so equality and \<open>>=\<close> on the TEXT column \<open>date\<close> are equality
    and \<open>\<ge>\<close> on day numbers.
  \<^item> A table is the list of its rows in rowid order. A JSON column holds the decoded
    value (\<open>json.loads (json.dumps v) = v\<close>). The type affinity of an SQLite column is
    not modelled: a column gives back the value that was bound to it.
  \<^item> Every \<open>raise\<close> is a value \<open>Inl e\<close> of the result type.
  \<^item> Library functions that are not code of the repository (\<open>json.loads\<close>, \<open>int\<close> on
    text, the pydantic constructor of \<open>TimeBlock\<close>, the remote model) are parameters,
    collected in the record \<open>lib\<close>; the clock and fresh uuids are arguments.
\<close>

subsection \<open>Errors\<close>

datatype error =
    ValueError
  | AttributeError
  | TypeError
  | ZeroDivisionError
  | IntegrityError
  | ValidationError
  | BindingError
  | RemoteError

fun fold_err :: "('b \<Rightarrow> 'a \<Rightarrow> error + 'b) \<Rightarrow> 'a list \<Rightarrow> 'b \<Rightarrow> error + 'b" where
  "fold_err f [] acc = Inr acc"
| "fold_err f (x # xs) acc = (case f acc x of Inl e \<Rightarrow> Inl e | Inr acc' \<Rightarrow> fold_err f xs acc')"

fun map_err :: "('a \<Rightarrow> error + 'b) \<Rightarrow> 'a list \<Rightarrow> error + 'b list" where
  "map_err f [] = Inr []"
| "map_err f (x # xs) =
     (case f x of
        Inl e \<Rightarrow> Inl e
      | Inr y \<Rightarrow> (case map_err f xs of Inl e \<Rightarrow> Inl e | Inr ys \<Rightarrow> Inr (y # ys)))"

definition py_div :: "real \<Rightarrow> real \<Rightarrow> error + real" where
  \<comment> \<open>Python's \<open>/\<close>.\<close>
  "py_div a b = (if b = 0 then Inl ZeroDivisionError else Inr (a / b))"

definition py_round :: "real \<Rightarrow> nat \<Rightarrow> real" where
  \<comment> \<open>\<open>round(x, nd)\<close>: to the nearest multiple of \<open>10 ^ -nd\<close>, a tie to the even one.\<close>
  "py_round x nd =
     (let y = x * 10 ^ nd; f = \<lfloor>y\<rfloor>; d = y - of_int f
      in (if d < 1 / 2 then of_int f
          else if 1 / 2 < d then of_int (f + 1)
          else if even f then of_int f else of_int (f + 1)) / 10 ^ nd)"

subsection \<open>Python strings\<close>

definition py_isspace :: "char \<Rightarrow> bool" where
  \<comment> \<open>The code points below 256 that \<open>str.strip()\<close> removes.\<close>
  "py_isspace c =
     (let n = (of_char c :: nat)
      in (9 \<le> n \<and> n \<le> 13) \<or> (28 \<le> n \<and> n \<le> 32) \<or> n = 133 \<or> n = 160)"

definition lstrip_by :: "(char \<Rightarrow> bool) \<Rightarrow> string \<Rightarrow> string" where
  "lstrip_by p s = dropWhile p s"

definition rstrip_by :: "(char \<Rightarrow> bool) \<Rightarrow> string \<Rightarrow> string" where
  "rstrip_by p s = rev (dropWhile p (rev s))"

definition py_strip :: "string \<Rightarrow> string" where
  \<comment> \<open>\<open>s.strip()\<close>\<close>
  "py_strip s = rstrip_by py_isspace (lstrip_by py_isspace s)"

definition py_lstrip_chars :: "string \<Rightarrow> string \<Rightarrow> string" where
  \<comment> \<open>\<open>s.lstrip(chars)\<close>: \<open>chars\<close> is a set of characters, not a prefix.\<close>
  "py_lstrip_chars chars s = lstrip_by (\<lambda>c. c \<in> set chars) s"

definition py_rstrip_chars :: "string \<Rightarrow> string \<Rightarrow> string" where
  \<comment> \<open>\<open>s.rstrip(chars)\<close>\<close>
  "py_rstrip_chars chars s = rstrip_by (\<lambda>c. c \<in> set chars) s"

definition py_strip_chars :: "string \<Rightarrow> string \<Rightarrow> string" where
  \<comment> \<open>\<open>s.strip(chars)\<close>\<close>
  "py_strip_chars chars s = py_rstrip_chars chars (py_lstrip_chars chars s)"

fun py_split :: "char \<Rightarrow> string \<Rightarrow> string list" where
  \<comment> \<open>\<open>s.split(sep)\<close> for a separator of one character\<close>
  "py_split sep [] = [[]]"
| "py_split sep (c # cs) =
     (if c = sep then [] # py_split sep cs
      else (case py_split sep cs of [] \<Rightarrow> [[c]] | w # ws \<Rightarrow> (c # w) # ws))"

fun str_less :: "string \<Rightarrow> string \<Rightarrow> bool" where
  \<comment> \<open>\<open>a < b\<close> on \<open>str\<close>: lexicographic by code point\<close>
  "str_less [] [] = False"
| "str_less [] (y # ys) = True"
| "str_less (x # xs) [] = False"
| "str_less (x # xs) (y # ys) =
     ((of_char x :: nat) < of_char y \<or> (x = y \<and> str_less xs ys))"

definition str_ge :: "string \<Rightarrow> string \<Rightarrow> bool" where
  \<comment> \<open>\<open>a >= b\<close> on \<open>str\<close>\<close>
  "str_ge a b = (\<not> str_less a b)"

subsection \<open>JSON values and dictionaries\<close>

datatype json =
    JNull
  | JBool bool
  | JInt int
  | JFloat real
  | JStr string
  | JList "json list"
  | JDict "(string \<times> json) list"

type_synonym pydict = "(string \<times> json) list"

definition dict_get :: "pydict \<Rightarrow> string \<Rightarrow> json \<Rightarrow> json" where
  \<comment> \<open>\<open>d.get(k, default)\<close>\<close>
  "dict_get d k dflt = (case map_of d k of None \<Rightarrow> dflt | Some v \<Rightarrow> v)"

definition json_get :: "json \<Rightarrow> string \<Rightarrow> json \<Rightarrow> error + json" where
  \<comment> \<open>\<open>v.get(k, default)\<close> on a decoded JSON value: only a dict has \<open>get\<close>.\<close>
  "json_get v k dflt = (case v of JDict d \<Rightarrow> Inr (dict_get d k dflt) | _ \<Rightarrow> Inl AttributeError)"

definition py_truthy :: "json \<Rightarrow> bool" where
  \<comment> \<open>the truth value of a decoded JSON value\<close>
  "py_truthy v =
     (case v of
        JNull \<Rightarrow> False
      | JBool b \<Rightarrow> b
      | JInt i \<Rightarrow> i \<noteq> 0
      | JFloat r \<Rightarrow> r \<noteq> 0
      | JStr s \<Rightarrow> s \<noteq> []
      | JList xs \<Rightarrow> xs \<noteq> []
      | JDict d \<Rightarrow> d \<noteq> [])"

definition py_iter :: "json \<Rightarrow> error + json list" where
  \<comment> \<open>\<open>for x in v\<close> on a decoded JSON value: a list gives its elements, a dict its keys, a
     string its characters; nothing else is iterable.\<close>
  "py_iter v =
     (case v of
        JList xs \<Rightarrow> Inr xs
      | JDict d \<Rightarrow> Inr (map (\<lambda>kv. JStr (fst kv)) d)
      | JStr s \<Rightarrow> Inr (map (\<lambda>c. JStr [c]) s)
      | _ \<Rightarrow> Inl TypeError)"

definition py_hashable :: "json \<Rightarrow> bool" where
  "py_hashable v = (case v of JList _ \<Rightarrow> False | JDict _ \<Rightarrow> False | _ \<Rightarrow> True)"

definition num_of :: "json \<Rightarrow> real option" where
  "num_of v =
     (case v of
        JBool b \<Rightarrow> Some (if b then 1 else 0)
      | JInt i \<Rightarrow> Some (of_int i)
      | JFloat r \<Rightarrow> Some r
      | _ \<Rightarrow> None)"

definition key_eq :: "json \<Rightarrow> json \<Rightarrow> bool" where
  \<comment> \<open>equality of dictionary keys: \<open>True == 1 == 1.0\<close>\<close>
  "key_eq a b =
     (case (num_of a, num_of b) of
        (Some x, Some y) \<Rightarrow> x = y
      | (None, None) \<Rightarrow> a = b
      | _ \<Rightarrow> False)"

fun hours_get :: "(json \<times> real) list \<Rightarrow> json \<Rightarrow> real \<Rightarrow> real" where
  \<comment> \<open>\<open>category_hours.get(k, default)\<close>\<close>
  "hours_get [] k dflt = dflt"
| "hours_get ((k', v) # rest) k dflt = (if key_eq k' k then v else hours_get rest k dflt)"

fun hours_put :: "(json \<times> real) list \<Rightarrow> json \<Rightarrow> real \<Rightarrow> (json \<times> real) list" where
  \<comment> \<open>\<open>category_hours[k] = v\<close>: an existing key keeps its place, a new one goes last\<close>
  "hours_put [] k v = [(k, v)]"
| "hours_put ((k', v') # rest) k v =
     (if key_eq k' k then (k', v) # rest else (k', v') # hours_put rest k v)"

type_synonym pydate = int

subsection \<open>Schemas (models/schemas.py)\<close>

datatype EnergyLevel = Energy_LOW | Energy_MEDIUM | Energy_HIGH

datatype Priority = Priority_LOW | Priority_MEDIUM | Priority_HIGH | Priority_URGENT

datatype TaskStatus = PENDING | IN_PROGRESS | COMPLETED | SKIPPED | RESCHEDULED

fun EnergyLevel_value :: "EnergyLevel \<Rightarrow> string" where
  "EnergyLevel_value Energy_LOW = ''low''"
| "EnergyLevel_value Energy_MEDIUM = ''medium''"
| "EnergyLevel_value Energy_HIGH = ''high''"

fun Priority_value :: "Priority \<Rightarrow> string" where
  "Priority_value Priority_LOW = ''low''"
| "Priority_value Priority_MEDIUM = ''medium''"
| "Priority_value Priority_HIGH = ''high''"
| "Priority_value Priority_URGENT = ''urgent''"

fun TaskStatus_value :: "TaskStatus \<Rightarrow> string" where
  "TaskStatus_value PENDING = ''pending''"
| "TaskStatus_value IN_PROGRESS = ''in_progress''"
| "TaskStatus_value COMPLETED = ''completed''"
| "TaskStatus_value SKIPPED = ''skipped''"
| "TaskStatus_value RESCHEDULED = ''rescheduled''"

record TimeBlock =
  block_id :: string
  title :: string
  description :: "string option"
  start_time :: string
  end_time :: string
  category :: string
  goal_id :: "string option"
  priority :: Priority
  energy_required :: EnergyLevel
  status :: TaskStatus
  is_flexible :: bool

definition opt_str :: "string option \<Rightarrow> json" where
  "opt_str v = (case v of None \<Rightarrow> JNull | Some s \<Rightarrow> JStr s)"

definition model_dump :: "TimeBlock \<Rightarrow> pydict" where
  \<comment> \<open>\<open>b.model_dump()\<close>, as \<open>json.dumps\<close> writes it: a member of a \<open>str\<close> enum is written
     as its value.\<close>
  "model_dump b =
     [(''block_id'', JStr (block_id b)),
      (''title'', JStr (title b)),
      (''description'', opt_str (description b)),
      (''start_time'', JStr (start_time b)),
      (''end_time'', JStr (end_time b)),
      (''category'', JStr (category b)),
      (''goal_id'', opt_str (goal_id b)),
      (''priority'', JStr (Priority_value (priority b))),
      (''energy_required'', JStr (EnergyLevel_value (energy_required b))),
      (''status'', JStr (TaskStatus_value (status b))),
      (''is_flexible'', JBool (is_flexible b))]"

text \<open>
  \<open>ai_notes\<close> of a \<open>DailySchedule\<close> is a JSON value: the constructor validates it as
  \<open>Optional[str]\<close>, but \<open>adaptive_reschedule_today\<close> assigns \<open>parsed.get("ai_notes")\<close> to
  the field afterwards, and pydantic does not validate an assignment.
\<close>

record DailySchedule =
  schedule_id :: string
  user_id :: string
  date :: pydate
  time_blocks :: "TimeBlock list"
  total_work_hours :: real
  productivity_score :: "real option"
  ai_notes :: json
  created_at :: string

record ScheduleGenerateRequest =
  req_user_id :: string
  req_date :: pydate
  req_goals :: "string list"
  force_regenerate :: bool
  req_context :: "string option"

record HabitCheckIn =
  ci_habit_id :: string
  ci_completed :: bool
  ci_date :: pydate
  ci_note :: "string option"




record ProgressSummary =
  ps_user_id :: string
  period :: string
  completion_rate :: real
  goals_on_track :: "string list"
  goals_at_risk :: "string list"
  habit_streaks :: "(string \<times> int) list"
  time_allocation :: "(json \<times> real) list"
  productivity_trend :: "real list"
  burnout_risk_score :: real
  ai_insights :: "string option"

subsection \<open>Tables (db/database.py)\<close>

text \<open>
  One record per table, a field per column (prefixed by the table where two tables
  share a column name). The only uniqueness constraint of every table is its
  \<open>PRIMARY KEY\<close>: the first column.
\<close>

record user_row =
  u_user_id :: string
  u_name :: string
  u_profile_json :: json
  u_created_at :: string

record goal_row =
  g_goal_id :: string
  g_user_id :: string
  g_title :: string
  g_category :: string
  g_priority :: string
  g_target_date :: "pydate option"
  g_daily_time_budget_min :: int
  g_progress_percent :: real
  g_status :: string

record schedule_row =
  s_schedule_id :: string
  s_user_id :: string
  s_date :: pydate
  s_time_blocks :: json
  s_total_work_hrs :: json
  s_ai_notes :: json
  s_created_at :: string

record habit_row =
  h_habit_id :: string
  h_user_id :: string
  h_title :: string
  h_streak_count :: int
  h_last_completed :: "pydate option"

record habit_log_row =
  l_log_id :: string
  l_habit_id :: string
  l_user_id :: string
  l_date :: pydate
  l_completed :: int
  l_note :: "string option"
  l_logged_at :: string

record checkin_row =
  c_checkin_id :: string
  c_user_id :: string
  c_date :: pydate
  c_energy_level :: string
  c_mood_score :: int
  c_focus_score :: int

record chat_session_row =
  cs_session_id :: string
  cs_user_id :: string
  cs_history :: "pydict list"
  cs_created_at :: string
  cs_updated_at :: string

subsection \<open>The remote model and the library\<close>

datatype prompt =
    SchedulePrompt pydate json "pydict list" "string option"
  | ReschedulePrompt nat string "TimeBlock list" "TimeBlock list"
  | InsightsPrompt string real "string list" "string list" real "(json \<times> real) list"
      "(string \<times> int) list"
  | CoachPrompt string pydict "pydict list"

record lib =
  json_loads :: "string \<Rightarrow> json option"
  py_int :: "string \<Rightarrow> int option"
  TimeBlock_new :: "pydict \<Rightarrow> TimeBlock option"
  float_field :: "json \<Rightarrow> real option"
  opt_str_field :: "json \<Rightarrow> json option"
  run_agent :: "prompt \<Rightarrow> string option"

record state =
  users :: "user_row list"
  goals :: "goal_row list"
  schedules :: "schedule_row list"
  habits :: "habit_row list"
  habit_logs :: "habit_log_row list"
  daily_checkins :: "checkin_row list"
  chat_sessions :: "chat_session_row list"
  agent_calls :: "prompt list"

subsection \<open>Progress summary (services/progress_service.py)\<close>

definition period_days :: "string \<Rightarrow> int" where
  \<comment> \<open>\<open>days = 7 if period == "weekly" else 30\<close>\<close>
  "period_days p = (if p = ''weekly'' then 7 else 30)"

definition parse_hm :: "lib \<Rightarrow> json \<Rightarrow> error + int \<times> int" where
  \<comment> \<open>\<open>h, m = map(int, v.split(":"))\<close>: only a string has \<open>split\<close>; a part that is no
     integer, or a number of parts other than two, is a \<open>ValueError\<close>.\<close>
  "parse_hm L v =
     (case v of
        JStr s \<Rightarrow>
          (case py_split CHR '':'' s of
             [a, b] \<Rightarrow>
               (case py_int L a of
                  None \<Rightarrow> Inl ValueError
                | Some h \<Rightarrow> (case py_int L b of None \<Rightarrow> Inl ValueError | Some m \<Rightarrow> Inr (h, m)))
           | _ \<Rightarrow> Inl ValueError)
      | _ \<Rightarrow> Inl AttributeError)"

definition count_block ::
  "lib \<Rightarrow> nat \<times> nat \<times> (json \<times> real) list \<Rightarrow> json \<Rightarrow> error + nat \<times> nat \<times> (json \<times> real) list" where
  \<comment> \<open>the body of \<open>for b in blocks\<close>, on \<open>(total_blocks, completed_blocks, category_hours)\<close>\<close>
  "count_block L acc b =
     (case acc of (total_blocks, completed_blocks, category_hours) \<Rightarrow>
        (case b of
           JDict d \<Rightarrow>
             (case parse_hm L (dict_get d ''start_time'' (JStr ''00:00'')) of
                Inl e \<Rightarrow> Inl e
              | Inr (start_h, start_m) \<Rightarrow>
                  (case parse_hm L (dict_get d ''end_time'' (JStr ''00:00'')) of
                     Inl e \<Rightarrow> Inl e
                   | Inr (end_h, end_m) \<Rightarrow>
                       (let duration_hrs =
                              real_of_int ((end_h * 60 + end_m) - (start_h * 60 + start_m)) / 60;
                            cat = dict_get d ''category'' (JStr ''other'')
                        in if py_hashable cat
                           then Inr (total_blocks + 1,
                                     (if dict_get d ''status'' JNull = JStr ''completed''
                                      then completed_blocks + 1 else completed_blocks),
                                     hours_put category_hours cat
                                       (hours_get category_hours cat 0 + max 0 duration_hrs))
                           else Inl TypeError)))
         | _ \<Rightarrow> Inl AttributeError))"

definition count_row ::
  "lib \<Rightarrow> nat \<times> nat \<times> (json \<times> real) list \<Rightarrow> schedule_row \<Rightarrow> error + nat \<times> nat \<times> (json \<times> real) list" where
  \<comment> \<open>the body of \<open>for srow in sched_rows\<close>\<close>
  "count_row L acc srow =
     (case py_iter (s_time_blocks srow) of
        Inl e \<Rightarrow> Inl e
      | Inr blocks \<Rightarrow> fold_err (count_block L) blocks acc)"

definition count_blocks ::
  "lib \<Rightarrow> schedule_row list \<Rightarrow> error + nat \<times> nat \<times> (json \<times> real) list" where
  "count_blocks L sched_rows = fold_err (count_row L) sched_rows (0, 0, [])"

definition completion_rate_of :: "nat \<Rightarrow> nat \<Rightarrow> error + real" where
  \<comment> \<open>\<open>(completed_blocks / total_blocks) if total_blocks else 0.0\<close>\<close>
  "completion_rate_of completed_blocks total_blocks =
     (if total_blocks \<noteq> 0 then py_div (real completed_blocks) (real total_blocks) else Inr 0)"

definition days_left_of :: "pydate \<Rightarrow> goal_row \<Rightarrow> int" where
  \<comment> \<open>\<open>(target_date - today).days if target_date else 999\<close>\<close>
  "days_left_of today g = (case g_target_date g of None \<Rightarrow> 999 | Some t \<Rightarrow> t - today)"

definition required_progress :: "int \<Rightarrow> int \<Rightarrow> error + real" where
  \<comment> \<open>\<open>(days / (days + days_left)) * 100 if days_left > 0 else 100\<close>\<close>
  "required_progress days days_left =
     (if 0 < days_left
      then (case py_div (real_of_int days) (real_of_int (days + days_left)) of
              Inl e \<Rightarrow> Inl e
            | Inr q \<Rightarrow> Inr (q * 100))
      else Inr 100)"

definition classify_goal ::
  "int \<Rightarrow> pydate \<Rightarrow> string list \<times> string list \<Rightarrow> goal_row \<Rightarrow> error + string list \<times> string list" where
  \<comment> \<open>the body of \<open>for g in goal_rows\<close>, on \<open>(goals_on_track, goals_at_risk)\<close>\<close>
  "classify_goal days today acc g =
     (case acc of (on_track, at_risk) \<Rightarrow>
        (case required_progress days (days_left_of today g) of
           Inl e \<Rightarrow> Inl e
         | Inr required \<Rightarrow>
             (if required * (85 / 100) \<le> g_progress_percent g
              then Inr (on_track @ [g_title g], at_risk)
              else Inr (on_track, at_risk @ [g_title g]))))"

definition classify_goals ::
  "int \<Rightarrow> pydate \<Rightarrow> goal_row list \<Rightarrow> error + string list \<times> string list" where
  "classify_goals days today goal_rows = fold_err (classify_goal days today) goal_rows ([], [])"

definition habit_streaks_of :: "habit_row list \<Rightarrow> (string \<times> int) list" where
  \<comment> \<open>\<open>{h["title"]: h["streak_count"] for h in habit_rows}\<close>\<close>
  "habit_streaks_of habit_rows =
     fold (\<lambda>h d. AList.update (h_title h) (h_streak_count h) d) habit_rows []"

definition avg_mood :: "checkin_row list \<Rightarrow> error + real" where
  "avg_mood cs = py_div (real_of_int (sum_list (map c_mood_score cs))) (real (length cs))"

definition avg_focus :: "checkin_row list \<Rightarrow> error + real" where
  "avg_focus cs = py_div (real_of_int (sum_list (map c_focus_score cs))) (real (length cs))"

definition energy_penalty :: "checkin_row list \<Rightarrow> error + real" where
  "energy_penalty cs =
     py_div (real (length (filter (\<lambda>c. c_energy_level c = ''low'') cs))) (real (length cs))"

definition work_hrs_avg :: "(json \<times> real) list \<Rightarrow> int \<Rightarrow> error + real" where
  "work_hrs_avg category_hours days =
     py_div (hours_get category_hours (JStr ''work'') 0 + hours_get category_hours (JStr ''study'') 0)
       (real_of_int (max days 1))"

definition burnout_score :: "real \<Rightarrow> real \<Rightarrow> real \<Rightarrow> real \<Rightarrow> real" where
  \<comment> \<open>the expression assigned to \<open>burnout_risk\<close>\<close>
  "burnout_score mood focus penalty work_hrs =
     py_round
       (min 1
          ((1 - mood / 10) * (35 / 100) +
           (1 - focus / 10) * (25 / 100) +
           penalty * (20 / 100) +
           min (work_hrs / 10) 1 * (20 / 100)))
       3"

definition burnout_risk :: "checkin_row list \<Rightarrow> (json \<times> real) list \<Rightarrow> int \<Rightarrow> error + real" where
  "burnout_risk checkins_data category_hours days =
     (if checkins_data = [] then Inr 0
      else
        (case avg_mood checkins_data of
           Inl e \<Rightarrow> Inl e
         | Inr mood \<Rightarrow>
             (case avg_focus checkins_data of
                Inl e \<Rightarrow> Inl e
              | Inr focus \<Rightarrow>
                  (case energy_penalty checkins_data of
                     Inl e \<Rightarrow> Inl e
                   | Inr penalty \<Rightarrow>
                       (case work_hrs_avg category_hours days of
                          Inl e \<Rightarrow> Inl e
                        | Inr work_hrs \<Rightarrow> Inr (burnout_score mood focus penalty work_hrs))))))"

definition window_schedules :: "pydate \<Rightarrow> string \<Rightarrow> string \<Rightarrow> state \<Rightarrow> schedule_row list" where
  \<comment> \<open>\<open>SELECT time_blocks FROM schedules WHERE user_id = ? AND date >= ?\<close>\<close>
  "window_schedules today uid p st =
     filter (\<lambda>r. s_user_id r = uid \<and> today - period_days p \<le> s_date r) (schedules st)"

definition window_checkins :: "pydate \<Rightarrow> string \<Rightarrow> string \<Rightarrow> state \<Rightarrow> checkin_row list" where
  "window_checkins today uid p st =
     filter (\<lambda>c. c_user_id c = uid \<and> today - period_days p \<le> c_date c) (daily_checkins st)"

definition active_goals :: "string \<Rightarrow> state \<Rightarrow> goal_row list" where
  \<comment> \<open>\<open>... FROM goals WHERE user_id = ? AND status = 'active'\<close>\<close>
  "active_goals uid st = filter (\<lambda>g. g_user_id g = uid \<and> g_status g = ''active'') (goals st)"

definition call_agent :: "lib \<Rightarrow> prompt \<Rightarrow> state \<Rightarrow> (error + string) \<times> state" where
  \<comment> \<open>\<open>await run_planner(prompt)\<close>: the call is recorded; a remote failure propagates.\<close>
  "call_agent L p st =
     ((case run_agent L p of None \<Rightarrow> Inl RemoteError | Some text \<Rightarrow> Inr text),
      st\<lparr>agent_calls := agent_calls st @ [p]\<rparr>)"

definition get_progress_summary ::
  "lib \<Rightarrow> pydate \<Rightarrow> string \<Rightarrow> string \<Rightarrow> state \<Rightarrow> (error + ProgressSummary) \<times> state" where
  "get_progress_summary L today uid p st =
     (let days = period_days p in
      case count_blocks L (window_schedules today uid p st) of
        Inl e \<Rightarrow> (Inl e, st)
      | Inr (total_blocks, completed_blocks, category_hours) \<Rightarrow>
      (case completion_rate_of completed_blocks total_blocks of
        Inl e \<Rightarrow> (Inl e, st)
      | Inr rate \<Rightarrow>
      (case classify_goals days today (active_goals uid st) of
        Inl e \<Rightarrow> (Inl e, st)
      | Inr (on_track, at_risk) \<Rightarrow>
      (case burnout_risk (window_checkins today uid p st) category_hours days of
        Inl e \<Rightarrow> (Inl e, st)
      | Inr burnout \<Rightarrow>
      (let streaks = habit_streaks_of (filter (\<lambda>h. h_user_id h = uid) (habits st)) in
       case call_agent L (InsightsPrompt p rate on_track at_risk burnout category_hours streaks) st of
         (Inl e, st') \<Rightarrow> (Inl e, st')
       | (Inr insights, st') \<Rightarrow>
           (Inr \<lparr>ps_user_id = uid, period = p, completion_rate = py_round rate 3,
                  goals_on_track = on_track, goals_at_risk = at_risk,
                  habit_streaks = streaks, time_allocation = category_hours,
                  productivity_trend = [], burnout_risk_score = burnout,
                  ai_insights = Some insights\<rparr>, st'))))))"

subsection \<open>Response extraction\<close>

definition clean_fenced :: "string \<Rightarrow> string" where
  \<comment> \<open>\<open>text.strip().lstrip("```json").lstrip("```").rstrip("```").strip()\<close>\<close>
  "clean_fenced text =
     py_strip
       (py_rstrip_chars ''```''
          (py_lstrip_chars ''```'' (py_lstrip_chars ''```json'' (py_strip text))))"

definition clean_fenced_coach :: "string \<Rightarrow> string" where
  \<comment> \<open>\<open>raw.strip().strip("```json").strip("```").strip()\<close>\<close>
  "clean_fenced_coach raw =
     py_strip (py_strip_chars ''```'' (py_strip_chars ''```json'' (py_strip raw)))"

definition extract_json :: "lib \<Rightarrow> string \<Rightarrow> json \<Rightarrow> json" where
  \<comment> \<open>\<open>try: parsed = json.loads(clean) except Exception: parsed = default\<close>, as in
     \<open>generate_schedule\<close>, \<open>adaptive_reschedule_today\<close>, \<open>create_goal\<close>, the scenario and the
     habit-suggestion routes\<close>
  "extract_json L text dflt =
     (case json_loads L (clean_fenced text) of None \<Rightarrow> dflt | Some v \<Rightarrow> v)"

definition schedule_default :: json where
  "schedule_default =
     JDict [(''time_blocks'', JList []), (''total_work_hours'', JFloat 0),
            (''ai_notes'', JStr ''Parsing failed.'')]"

definition coach_default :: "string \<Rightarrow> json" where
  "coach_default raw = JDict [(''reply'', JStr raw), (''suggested_actions'', JList [])]"

definition extract_coach :: "lib \<Rightarrow> string \<Rightarrow> json" where
  \<comment> \<open>the \<open>try\<close> of \<open>run_coach\<close>\<close>
  "extract_coach L raw =
     (case json_loads L (clean_fenced_coach raw) of None \<Rightarrow> coach_default raw | Some v \<Rightarrow> v)"

subsection \<open>Schedules (services/schedule_service.py)\<close>

definition sql_bindable :: "json \<Rightarrow> bool" where
  \<comment> \<open>what sqlite3 binds to a parameter: \<open>None\<close>, a 64-bit \<open>int\<close>, a \<open>float\<close>, a \<open>str\<close>\<close>
  "sql_bindable v =
     (case v of
        JList _ \<Rightarrow> False
      | JDict _ \<Rightarrow> False
      | JInt i \<Rightarrow> - (2 ^ 63) \<le> i \<and> i < 2 ^ 63
      | _ \<Rightarrow> True)"

definition goals_data_of :: "goal_row \<Rightarrow> pydict" where
  \<comment> \<open>an entry of \<open>goals_data\<close>; the ISO text of \<open>target_date\<close> is written as its day number\<close>
  "goals_data_of r =
     [(''goal_id'', JStr (g_goal_id r)),
      (''title'', JStr (g_title r)),
      (''category'', JStr (g_category r)),
      (''priority'', JStr (g_priority r)),
      (''target_date'', (case g_target_date r of None \<Rightarrow> JNull | Some d \<Rightarrow> JInt d)),
      (''daily_time_budget_min'', JInt (g_daily_time_budget_min r)),
      (''progress_percent'', JFloat (g_progress_percent r))]"

fun assign_block_ids :: "(nat \<Rightarrow> string) \<Rightarrow> nat \<Rightarrow> json list \<Rightarrow> error + json list" where
  \<comment> \<open>\<open>for block in ...: if not block.get("block_id"): block["block_id"] = str(uuid.uuid4())\<close>;
     \<open>uuids n\<close> is the next fresh uuid.\<close>
  "assign_block_ids uuids n [] = Inr []"
| "assign_block_ids uuids n (b # bs) =
     (case b of
        JDict d \<Rightarrow>
          (if py_truthy (dict_get d ''block_id'' JNull)
           then (case assign_block_ids uuids n bs of
                   Inl e \<Rightarrow> Inl e
                 | Inr bs' \<Rightarrow> Inr (JDict d # bs'))
           else (case assign_block_ids uuids (Suc n) bs of
                   Inl e \<Rightarrow> Inl e
                 | Inr bs' \<Rightarrow> Inr (JDict (AList.update ''block_id'' (JStr (uuids n)) d) # bs')))
      | _ \<Rightarrow> Inl AttributeError)"

definition with_block_ids :: "(nat \<Rightarrow> string) \<Rightarrow> json \<Rightarrow> error + json" where
  \<comment> \<open>the loop over \<open>parsed.get("time_blocks", [])\<close>, giving the value it leaves behind: the
     blocks of a list are updated in place; a dict is iterated by its keys and a string by
     its characters, none of which has \<open>get\<close>.\<close>
  "with_block_ids uuids v =
     (case v of
        JList bs \<Rightarrow>
          (case assign_block_ids uuids 1 bs of Inl e \<Rightarrow> Inl e | Inr bs' \<Rightarrow> Inr (JList bs'))
      | _ \<Rightarrow>
          (case py_iter v of
             Inl e \<Rightarrow> Inl e
           | Inr xs \<Rightarrow> (if xs = [] then Inr v else Inl AttributeError)))"

definition new_TimeBlock :: "lib \<Rightarrow> json \<Rightarrow> error + TimeBlock" where
  \<comment> \<open>\<open>TimeBlock(**b)\<close>: \<open>**\<close> needs a mapping\<close>
  "new_TimeBlock L b =
     (case b of
        JDict d \<Rightarrow> (case TimeBlock_new L d of None \<Rightarrow> Inl ValidationError | Some t \<Rightarrow> Inr t)
      | _ \<Rightarrow> Inl TypeError)"

definition new_TimeBlocks :: "lib \<Rightarrow> json \<Rightarrow> error + TimeBlock list" where
  \<comment> \<open>\<open>[TimeBlock(**b) for b in v]\<close>\<close>
  "new_TimeBlocks L v =
     (case py_iter v of Inl e \<Rightarrow> Inl e | Inr bs \<Rightarrow> map_err (new_TimeBlock L) bs)"

definition new_DailySchedule ::
  "lib \<Rightarrow> string \<Rightarrow> string \<Rightarrow> pydate \<Rightarrow> TimeBlock list \<Rightarrow> json \<Rightarrow> json \<Rightarrow> string \<Rightarrow> error + DailySchedule" where
  \<comment> \<open>\<open>DailySchedule(...)\<close>: pydantic validates \<open>total_work_hours: float\<close> and
     \<open>ai_notes: Optional[str]\<close>.\<close>
  "new_DailySchedule L sid uid d blocks hours notes created =
     (case float_field L hours of
        None \<Rightarrow> Inl ValidationError
      | Some h \<Rightarrow>
          (case opt_str_field L notes of
             None \<Rightarrow> Inl ValidationError
           | Some n \<Rightarrow>
               Inr \<lparr>schedule_id = sid, user_id = uid, date = d, time_blocks = blocks,
                     total_work_hours = h, productivity_score = None, ai_notes = n,
                     created_at = created\<rparr>))"

definition insert_or_replace_schedule :: "schedule_row \<Rightarrow> schedule_row list \<Rightarrow> schedule_row list" where
  \<comment> \<open>\<open>INSERT OR REPLACE INTO schedules\<close>: a row with the same \<open>schedule_id\<close> (the only
     unique column of the table) is deleted, then the new row is added.\<close>
  "insert_or_replace_schedule row tbl =
     filter (\<lambda>r. s_schedule_id r \<noteq> s_schedule_id row) tbl @ [row]"

definition schedule_goals :: "ScheduleGenerateRequest \<Rightarrow> state \<Rightarrow> goal_row list" where
  \<comment> \<open>the active goals of the user, among \<open>request.goals\<close> when that list is not empty\<close>
  "schedule_goals request st =
     filter (\<lambda>g. g_user_id g = req_user_id request \<and> g_status g = ''active'' \<and>
                 (req_goals request = [] \<or> g_goal_id g \<in> set (req_goals request)))
       (goals st)"

definition context_or_None :: "string option \<Rightarrow> string option" where
  \<comment> \<open>\<open>request.context or "None"\<close>\<close>
  "context_or_None c = (case c of None \<Rightarrow> Some ''None'' | Some s \<Rightarrow> Some (if s = [] then ''None'' else s))"

definition generate_schedule ::
  "lib \<Rightarrow> (nat \<Rightarrow> string) \<Rightarrow> string \<Rightarrow> ScheduleGenerateRequest \<Rightarrow> state \<Rightarrow> (error + DailySchedule) \<times> state" where
  \<comment> \<open>\<open>uuids 0\<close> is the schedule's uuid, \<open>uuids 1, 2, ...\<close> the ones given to blocks;
     \<open>now_str\<close> is \<open>datetime.utcnow().isoformat()\<close> (also taken for the \<open>created_at\<close> of the
     returned object, which the source reads from the clock once more). A parsed value
     that is no dict has no \<open>get\<close>.\<close>
  "generate_schedule L uuids now_str request st =
     (case find (\<lambda>u. u_user_id u = req_user_id request) (users st) of
        None \<Rightarrow> (Inl ValueError, st)
      | Some row \<Rightarrow>
      (case call_agent L
              (SchedulePrompt (req_date request) (u_profile_json row)
                 (map goals_data_of (schedule_goals request st))
                 (context_or_None (req_context request))) st of
        (Inl e, st1) \<Rightarrow> (Inl e, st1)
      | (Inr ai_response, st1) \<Rightarrow>
      (case extract_json L ai_response schedule_default of
        JDict parsed \<Rightarrow>
      (case with_block_ids uuids (dict_get parsed ''time_blocks'' (JList [])) of
        Inl e \<Rightarrow> (Inl e, st1)
      | Inr blocks_json \<Rightarrow>
      (let hours = dict_get parsed ''total_work_hours'' (JFloat 0);
           notes = dict_get parsed ''ai_notes'' JNull
       in if \<not> (sql_bindable hours \<and> sql_bindable notes) then (Inl BindingError, st1)
          else
            (let st2 = st1\<lparr>schedules :=
                         insert_or_replace_schedule
                           \<lparr>s_schedule_id = uuids 0, s_user_id = req_user_id request,
                            s_date = req_date request, s_time_blocks = blocks_json,
                            s_total_work_hrs = hours, s_ai_notes = notes,
                            s_created_at = now_str\<rparr>
                           (schedules st1)\<rparr>
             in case new_TimeBlocks L blocks_json of
                  Inl e \<Rightarrow> (Inl e, st2)
                | Inr blocks \<Rightarrow>
                    (new_DailySchedule L (uuids 0) (req_user_id request) (req_date request)
                       blocks hours notes now_str, st2))))
      | _ \<Rightarrow> (Inl AttributeError, st1))))"

definition get_schedule ::
  "lib \<Rightarrow> string \<Rightarrow> pydate \<Rightarrow> state \<Rightarrow> error + DailySchedule option" where
  \<comment> \<open>\<open>fetchone()\<close> of \<open>SELECT * FROM schedules WHERE user_id = ? AND date = ?\<close>: the first
     matching row of the scan\<close>
  "get_schedule L uid target_date st =
     (case find (\<lambda>r. s_user_id r = uid \<and> s_date r = target_date) (schedules st) of
        None \<Rightarrow> Inr None
      | Some row \<Rightarrow>
          (case new_TimeBlocks L (s_time_blocks row) of
             Inl e \<Rightarrow> Inl e
           | Inr blocks \<Rightarrow>
               (case new_DailySchedule L (s_schedule_id row) (s_user_id row) (s_date row) blocks
                       (s_total_work_hrs row) (s_ai_notes row) (s_created_at row) of
                  Inl e \<Rightarrow> Inl e
                | Inr s \<Rightarrow> Inr (Some s))))"

definition missed_blocks :: "string \<Rightarrow> TimeBlock list \<Rightarrow> TimeBlock list" where
  \<comment> \<open>\<open>b.status in ("pending", "skipped") and b.end_time < now_str\<close>\<close>
  "missed_blocks now_str bs =
     filter (\<lambda>b. (status b = PENDING \<or> status b = SKIPPED) \<and> str_less (end_time b) now_str) bs"

definition remaining_blocks :: "string \<Rightarrow> TimeBlock list \<Rightarrow> TimeBlock list" where
  \<comment> \<open>\<open>b.end_time >= now_str and b.status == "pending"\<close>\<close>
  "remaining_blocks now_str bs =
     filter (\<lambda>b. str_ge (end_time b) now_str \<and> status b = PENDING) bs"

definition completed_blocks_of :: "TimeBlock list \<Rightarrow> TimeBlock list" where
  \<comment> \<open>\<open>b.status == "completed"\<close>\<close>
  "completed_blocks_of bs = filter (\<lambda>b. status b = COMPLETED) bs"

definition dump_blocks :: "TimeBlock list \<Rightarrow> json" where
  \<comment> \<open>\<open>[b.model_dump() for b in blocks]\<close>\<close>
  "dump_blocks bs = JList (map (\<lambda>b. JDict (model_dump b)) bs)"

definition reschedule_default :: "TimeBlock list \<Rightarrow> json" where
  "reschedule_default remaining =
     JDict [(''time_blocks'', dump_blocks remaining), (''ai_notes'', JStr ''No change.'')]"

definition update_schedule_blocks ::
  "string \<Rightarrow> pydate \<Rightarrow> json \<Rightarrow> json \<Rightarrow> schedule_row list \<Rightarrow> schedule_row list" where
  \<comment> \<open>\<open>UPDATE schedules SET time_blocks = ?, ai_notes = ? WHERE user_id = ? AND date = ?\<close>\<close>
  "update_schedule_blocks uid d blocks notes tbl =
     map (\<lambda>r. if s_user_id r = uid \<and> s_date r = d
              then r\<lparr>s_time_blocks := blocks, s_ai_notes := notes\<rparr> else r) tbl"

definition adaptive_reschedule_today ::
  "lib \<Rightarrow> pydate \<Rightarrow> string \<Rightarrow> string \<Rightarrow> state \<Rightarrow> (error + DailySchedule) \<times> state" where
  \<comment> \<open>\<open>today\<close> is \<open>date.today()\<close>, \<open>now_str\<close> is \<open>datetime.now().strftime("%H:%M")\<close>.\<close>
  "adaptive_reschedule_today L today now_str uid st =
     (case get_schedule L uid today st of
        Inl e \<Rightarrow> (Inl e, st)
      | Inr None \<Rightarrow> (Inl ValueError, st)
      | Inr (Some schedule) \<Rightarrow>
      (let missed = missed_blocks now_str (time_blocks schedule);
           remaining = remaining_blocks now_str (time_blocks schedule)
       in if missed = [] then (Inr schedule, st)
          else
      (case call_agent L (ReschedulePrompt (length missed) now_str missed remaining) st of
        (Inl e, st1) \<Rightarrow> (Inl e, st1)
      | (Inr ai_response, st1) \<Rightarrow>
      (case extract_json L ai_response (reschedule_default remaining) of
        JDict parsed \<Rightarrow>
      (case new_TimeBlocks L (dict_get parsed ''time_blocks'' (JList [])) of
        Inl e \<Rightarrow> (Inl e, st1)
      | Inr returned \<Rightarrow>
      (let new_blocks = completed_blocks_of (time_blocks schedule) @ returned;
           notes = dict_get parsed ''ai_notes'' JNull
       in if \<not> sql_bindable notes then (Inl BindingError, st1)
          else
            (Inr (schedule\<lparr>time_blocks := new_blocks, ai_notes := notes\<rparr>),
             st1\<lparr>schedules :=
                   update_schedule_blocks uid today (dump_blocks new_blocks) notes
                     (schedules st1)\<rparr>)))
      | _ \<Rightarrow> (Inl AttributeError, st1)))))"

subsection \<open>Habit check-in (routers/habits.py)\<close>

definition checkin_habit :: "HabitCheckIn \<Rightarrow> habit_row \<Rightarrow> habit_row" where
  \<comment> \<open>the \<open>UPDATE habits ... WHERE habit_id = ?\<close> of either branch, on one row\<close>
  "checkin_habit checkin h =
     (if h_habit_id h = ci_habit_id checkin
      then (if ci_completed checkin
            then h\<lparr>h_streak_count := h_streak_count h + 1,
                   h_last_completed := Some (ci_date checkin)\<rparr>
            else h\<lparr>h_streak_count := 0\<rparr>)
      else h)"

definition api_habit_checkin ::
  "string \<Rightarrow> string \<Rightarrow> string \<Rightarrow> HabitCheckIn \<Rightarrow> state \<Rightarrow> (error + string) \<times> state" where
  \<comment> \<open>\<open>log_id\<close> is the fresh uuid, \<open>now_str\<close> the clock. A plain \<open>INSERT\<close> of a
     \<open>log_id\<close> already in the table violates the primary key; nothing is committed then.\<close>
  "api_habit_checkin log_id now_str uid checkin st =
     (if log_id \<in> set (map l_log_id (habit_logs st)) then (Inl IntegrityError, st)
      else
        (Inr log_id,
         st\<lparr>habit_logs :=
               habit_logs st @
                 [\<lparr>l_log_id = log_id, l_habit_id = ci_habit_id checkin, l_user_id = uid,
                   l_date = ci_date checkin, l_completed = (if ci_completed checkin then 1 else 0),
                   l_note = ci_note checkin, l_logged_at = now_str\<rparr>],
             habits := map (checkin_habit checkin) (habits st)\<rparr>))"

subsection \<open>Coach chat (routers/chat.py)\<close>








subsection \<open>An instance of the library, for evaluating the operations\<close>

text \<open>
  The theorems below hold for every \<open>lib\<close>. To run an operation on a concrete input the
  parameters are instantiated: \<open>json.loads\<close> by a finite table of texts, \<open>int\<close> by the
  reading of plain decimal digits, and the pydantic constructors by validators that
  accept a value of exactly the declared type and coerce nothing (pydantic accepts
  these values too, and builds the same object).
\<close>

definition digits_int :: "string \<Rightarrow> int option" where
  "digits_int s =
     (if s \<noteq> [] \<and> list_all (\<lambda>c. 48 \<le> (of_char c :: nat) \<and> (of_char c :: nat) \<le> 57) s
      then Some (foldl (\<lambda>a c. 10 * a + (int (of_char c) - 48)) 0 s)
      else None)"

definition str_at :: "pydict \<Rightarrow> string \<Rightarrow> string option" where
  "str_at d k = (case map_of d k of Some (JStr s) \<Rightarrow> Some s | _ \<Rightarrow> None)"

definition opt_str_at :: "pydict \<Rightarrow> string \<Rightarrow> string option option" where
  "opt_str_at d k =
     (case map_of d k of
        None \<Rightarrow> Some None
      | Some JNull \<Rightarrow> Some None
      | Some (JStr s) \<Rightarrow> Some (Some s)
      | _ \<Rightarrow> None)"

definition enum_at :: "(string \<Rightarrow> 'a option) \<Rightarrow> 'a \<Rightarrow> pydict \<Rightarrow> string \<Rightarrow> 'a option" where
  "enum_at of_value dflt d k =
     (case map_of d k of None \<Rightarrow> Some dflt | Some (JStr s) \<Rightarrow> of_value s | _ \<Rightarrow> None)"

definition bool_at :: "bool \<Rightarrow> pydict \<Rightarrow> string \<Rightarrow> bool option" where
  "bool_at dflt d k =
     (case map_of d k of None \<Rightarrow> Some dflt | Some (JBool b) \<Rightarrow> Some b | _ \<Rightarrow> None)"

definition Priority_of :: "string \<Rightarrow> Priority option" where
  "Priority_of s =
     find (\<lambda>p. Priority_value p = s) [Priority_LOW, Priority_MEDIUM, Priority_HIGH, Priority_URGENT]"

definition EnergyLevel_of :: "string \<Rightarrow> EnergyLevel option" where
  "EnergyLevel_of s =
     find (\<lambda>e. EnergyLevel_value e = s) [Energy_LOW, Energy_MEDIUM, Energy_HIGH]"

definition TaskStatus_of :: "string \<Rightarrow> TaskStatus option" where
  "TaskStatus_of s =
     find (\<lambda>t. TaskStatus_value t = s) [PENDING, IN_PROGRESS, COMPLETED, SKIPPED, RESCHEDULED]"

definition TimeBlock_exact :: "pydict \<Rightarrow> TimeBlock option" where
  "TimeBlock_exact d =
     Option.bind (str_at d ''block_id'') (\<lambda>v1.
     Option.bind (str_at d ''title'') (\<lambda>v2.
     Option.bind (opt_str_at d ''description'') (\<lambda>v3.
     Option.bind (str_at d ''start_time'') (\<lambda>v4.
     Option.bind (str_at d ''end_time'') (\<lambda>v5.
     Option.bind (str_at d ''category'') (\<lambda>v6.
     Option.bind (opt_str_at d ''goal_id'') (\<lambda>v7.
     Option.bind (enum_at Priority_of Priority_MEDIUM d ''priority'') (\<lambda>v8.
     Option.bind (enum_at EnergyLevel_of Energy_MEDIUM d ''energy_required'') (\<lambda>v9.
     Option.bind (enum_at TaskStatus_of PENDING d ''status'') (\<lambda>v10.
     Option.bind (bool_at True d ''is_flexible'') (\<lambda>v11.
       Some \<lparr>block_id = v1, title = v2, description = v3, start_time = v4, end_time = v5,
             category = v6, goal_id = v7, priority = v8, energy_required = v9,
             status = v10, is_flexible = v11\<rparr>)))))))))))"

definition float_exact :: "json \<Rightarrow> real option" where
  "float_exact v = (case v of JFloat r \<Rightarrow> Some r | JInt i \<Rightarrow> Some (real_of_int i) | _ \<Rightarrow> None)"

definition opt_str_exact :: "json \<Rightarrow> json option" where
  "opt_str_exact v = (case v of JNull \<Rightarrow> Some JNull | JStr s \<Rightarrow> Some (JStr s) | _ \<Rightarrow> None)"



definition table_lib :: "(string \<times> json) list \<Rightarrow> (prompt \<Rightarrow> string option) \<Rightarrow> lib" where
  "table_lib texts agent =
     \<lparr>json_loads = map_of texts, py_int = digits_int, TimeBlock_new = TimeBlock_exact,
      float_field = float_exact, opt_str_field = opt_str_exact, run_agent = agent\<rparr>"

subsection \<open>Example data\<close>

definition demo_checkins :: "checkin_row list" where
  "demo_checkins =
     [\<lparr>c_checkin_id = ''c1'', c_user_id = ''u1'', c_date = 100, c_energy_level = ''low'',
       c_mood_score = 4, c_focus_score = 6\<rparr>,
      \<lparr>c_checkin_id = ''c2'', c_user_id = ''u1'', c_date = 101, c_energy_level = ''high'',
       c_mood_score = 6, c_focus_score = 4\<rparr>]"

definition demo_hours :: "(json \<times> real) list" where
  "demo_hours = [(JStr ''work'', 30), (JStr ''study'', 5)]"

definition demo_goal :: goal_row where
  "demo_goal =
     \<lparr>g_goal_id = ''g1'', g_user_id = ''u1'', g_title = ''Run 10k'', g_category = ''fitness'',
      g_priority = ''high'', g_target_date = Some 110, g_daily_time_budget_min = 60,
      g_progress_percent = 85 / 2, g_status = ''active''\<rparr>"

definition empty_state :: state where
  "empty_state =
     \<lparr>users = [], goals = [], schedules = [], habits = [], habit_logs = [],
      daily_checkins = [], chat_sessions = [], agent_calls = []\<rparr>"

definition demo_progress_state :: state where
  "demo_progress_state =
     empty_state
       \<lparr>goals := [demo_goal],
        schedules :=
          [\<lparr>s_schedule_id = ''s1'', s_user_id = ''u1'', s_date = 100, s_time_blocks = JList [],
            s_total_work_hrs = JFloat 0, s_ai_notes = JNull, s_created_at = ''t0''\<rparr>],
        daily_checkins := demo_checkins\<rparr>"

definition demo_habit_state :: state where
  "demo_habit_state =
     empty_state
       \<lparr>habits :=
          [\<lparr>h_habit_id = ''h1'', h_user_id = ''u1'', h_title = ''Stretch'',
            h_streak_count = 5, h_last_completed = Some 99\<rparr>,
           \<lparr>h_habit_id = ''h2'', h_user_id = ''u1'', h_title = ''Read'',
            h_streak_count = 2, h_last_completed = None\<rparr>]\<rparr>"

definition demo_checkin :: "bool \<Rightarrow> HabitCheckIn" where
  "demo_checkin done =
     \<lparr>ci_habit_id = ''h1'', ci_completed = done, ci_date = 100, ci_note = None\<rparr>"





definition mk_block :: "string \<Rightarrow> string \<Rightarrow> string \<Rightarrow> string \<Rightarrow> TaskStatus \<Rightarrow> TimeBlock" where
  "mk_block bid name start finish st =
     \<lparr>block_id = bid, title = name, description = None, start_time = start,
      end_time = finish, category = ''work'', goal_id = None, priority = Priority_MEDIUM,
      energy_required = Energy_MEDIUM, status = st, is_flexible = True\<rparr>"

definition demo_blocks :: "TimeBlock list" where
  "demo_blocks =
     [mk_block ''b1'' ''Plan'' ''08:00'' ''09:00'' COMPLETED,
      mk_block ''b2'' ''Write'' ''09:00'' ''10:00'' PENDING,
      mk_block ''b3'' ''Review'' ''14:00'' ''15:00'' PENDING]"

definition demo_schedule_row :: schedule_row where
  "demo_schedule_row =
     \<lparr>s_schedule_id = ''s1'', s_user_id = ''u1'', s_date = 200,
      s_time_blocks = dump_blocks demo_blocks, s_total_work_hrs = JFloat 3,
      s_ai_notes = JStr ''First plan.'', s_created_at = ''2026-07-19T07:00:00''\<rparr>"

definition demo_schedule :: DailySchedule where
  "demo_schedule =
     \<lparr>schedule_id = ''s1'', user_id = ''u1'', date = 200, time_blocks = demo_blocks,
      total_work_hours = 3, productivity_score = None, ai_notes = JStr ''First plan.'',
      created_at = ''2026-07-19T07:00:00''\<rparr>"

definition demo_schedule_state :: state where
  "demo_schedule_state =
     empty_state
       \<lparr>users := [\<lparr>u_user_id = ''u1'', u_name = ''Ada'', u_profile_json = JDict [],
                   u_created_at = ''2026-07-01T00:00:00''\<rparr>],
        schedules := [demo_schedule_row]\<rparr>"

definition demo_reply_text :: string where
  \<comment> \<open>a reply of the model: a fenced JSON object\<close>
  "demo_reply_text =
     ''```json'' @ [CHR 0x0A] @
     ''{\"time_blocks\": [{\"block_id\": \"n1\", \"title\": \"Catch up\", \"start_time\": \"16:00\", \"end_time\": \"17:00\", \"category\": \"work\"}], \"ai_notes\": \"Moved.\"}'' @
     [CHR 0x0A] @ ''```''"

definition demo_reply_json :: json where
  \<comment> \<open>what \<open>json.loads\<close> gives for the JSON object of \<open>demo_reply_text\<close>\<close>
  "demo_reply_json =
     JDict [(''time_blocks'',
             JList [JDict [(''block_id'', JStr ''n1''), (''title'', JStr ''Catch up''),
                           (''start_time'', JStr ''16:00''), (''end_time'', JStr ''17:00''),
                           (''category'', JStr ''work'')]]),
            (''ai_notes'', JStr ''Moved.'')]"

definition demo_planner_lib :: lib where
  \<comment> \<open>the model answers \<open>demo_reply_text\<close>\<close>
  "demo_planner_lib =
     table_lib
       [(''{\"time_blocks\": [{\"block_id\": \"n1\", \"title\": \"Catch up\", \"start_time\": \"16:00\", \"end_time\": \"17:00\", \"category\": \"work\"}], \"ai_notes\": \"Moved.\"}'',
         demo_reply_json)]
       (\<lambda>p. Some demo_reply_text)"

definition demo_prose_lib :: lib where
  \<comment> \<open>the model answers in prose, which is no JSON\<close>
  "demo_prose_lib = table_lib [] (\<lambda>p. Some ''Sorry, I cannot help with that.'')"

definition demo_generate_request :: ScheduleGenerateRequest where
  "demo_generate_request =
     \<lparr>req_user_id = ''u1'', req_date = 200, req_goals = [], force_regenerate = False,
      req_context = None\<rparr>"

definition demo_uuids :: "nat \<Rightarrow> string" where
  "demo_uuids n = (if n = 0 then ''s2'' else ''fresh'')"

definition demo_reply_object :: string where
  \<comment> \<open>the JSON object inside \<open>demo_reply_text\<close>, between the line breaks\<close>
  "demo_reply_object =
     ''{\"time_blocks\": [{\"block_id\": \"n1\", \"title\": \"Catch up\", \"start_time\": \"16:00\", \"end_time\": \"17:00\", \"category\": \"work\"}], \"ai_notes\": \"Moved.\"}''"

definition demo_fence_lib :: lib where
  \<comment> \<open>\<open>json.loads\<close> reads the object with and without the line breaks around it\<close>
  "demo_fence_lib =
     table_lib
       [(demo_reply_object, demo_reply_json),
        ([CHR 0x0A] @ demo_reply_object @ [CHR 0x0A], demo_reply_json)]
       (\<lambda>p. Some demo_reply_text)"

section \<open>Properties\<close>

subsection \<open>Progress summary\<close>

lemma py_div_nonzero: "b \<noteq> 0 \<Longrightarrow> py_div a b = Inr (a / b)"
  by (simp add: py_div_def)

lemma py_round_zero: "py_round 0 n = 0"
  by (simp add: py_round_def)

lemma period_days_pos: "0 < period_days p"
  by (simp add: period_days_def)

lemma burnout_score_fixed: "burnout_score 5 5 (1 / 2) 5 = 1 / 2"
  by (simp add: burnout_score_def py_round_def Let_def)

lemma demo_checkins_averages:
  "avg_mood demo_checkins = Inr 5" "avg_focus demo_checkins = Inr 5"
  "energy_penalty demo_checkins = Inr (1 / 2)" "work_hrs_avg demo_hours 7 = Inr 5"
  by (simp_all add: avg_mood_def avg_focus_def energy_penalty_def work_hrs_avg_def
      demo_checkins_def demo_hours_def key_eq_def num_of_def py_div_def)

text \<open>
  C1 (amended). With at least one check-in in the window, the burnout risk score is the
  weighted sum \<open>(1 - avg_mood/10)*0.35 + (1 - avg_focus/10)*0.25 + energy_penalty*0.20 +
  min(work_hrs_avg/10, 1)*0.20\<close>, clamped above at 1 and rounded to 3 decimal places; for
  \<open>avg_mood = 5\<close>, \<open>avg_focus = 5\<close>, \<open>energy_penalty = 0.5\<close>, \<open>work_hrs_avg = 5\<close> it is
  0.5 (the sum is \<open>0.175 + 0.125 + 0.1 + 0.1\<close>), not 0.4.
\<close>

theorem burnout_fixed_inputs:
  assumes "checkins_data \<noteq> []"
    and "avg_mood checkins_data = Inr m"
    and "avg_focus checkins_data = Inr f"
    and "energy_penalty checkins_data = Inr e"
    and "work_hrs_avg category_hours days = Inr w"
  shows "burnout_risk checkins_data category_hours days =
           Inr (py_round
                  (min 1 ((1 - m / 10) * (35 / 100) + (1 - f / 10) * (25 / 100) +
                          e * (20 / 100) + min (w / 10) 1 * (20 / 100))) 3) \<and>
         (m = 5 \<and> f = 5 \<and> e = 1 / 2 \<and> w = 5 \<longrightarrow>
            burnout_risk checkins_data category_hours days = Inr (1 / 2))"
proof -
  have eq: "burnout_risk checkins_data category_hours days = Inr (burnout_score m f e w)"
    using assms by (simp add: burnout_risk_def)
  show ?thesis
  proof (intro conjI impI)
    show "burnout_risk checkins_data category_hours days =
            Inr (py_round
                   (min 1 ((1 - m / 10) * (35 / 100) + (1 - f / 10) * (25 / 100) +
                           e * (20 / 100) + min (w / 10) 1 * (20 / 100))) 3)"
      using eq by (simp add: burnout_score_def)
  next
    assume "m = 5 \<and> f = 5 \<and> e = 1 / 2 \<and> w = 5"
    then have "burnout_score m f e w = burnout_score 5 5 (1 / 2) 5"
      by (elim conjE) (simp only:)
    with eq show "burnout_risk checkins_data category_hours days = Inr (1 / 2)"
      by (simp only: burnout_score_fixed)
  qed
qed

theorem burnout_fixed_inputs_witness:
  "burnout_risk demo_checkins demo_hours 7 = Inr (1 / 2)"
proof -
  have "demo_checkins \<noteq> []"
    by (simp add: demo_checkins_def)
  from burnout_fixed_inputs [OF this demo_checkins_averages, THEN conjunct2]
  show ?thesis by simp
qed

theorem burnout_fixed_inputs_counterexample:
  "avg_mood demo_checkins = Inr 5 \<and> avg_focus demo_checkins = Inr 5 \<and>
   energy_penalty demo_checkins = Inr (1 / 2) \<and> work_hrs_avg demo_hours 7 = Inr 5 \<and>
   burnout_risk demo_checkins demo_hours 7 \<noteq> Inr (2 / 5) \<and>
   py_round (min 1 (35 / 100 * (1 / 2) + 25 / 100 * (1 / 2) + 1 / 2 * (20 / 100) +
                    1 / 2 * (20 / 100))) 3 \<noteq> 2 / 5"
proof -
  have "burnout_risk demo_checkins demo_hours 7 = Inr (burnout_score 5 5 (1 / 2) 5)"
    by (simp add: burnout_risk_def demo_checkins_averages) (simp add: demo_checkins_def)
  moreover have "py_round (min 1 (35 / 100 * (1 / 2) + 25 / 100 * (1 / 2) + 1 / 2 * (20 / 100) +
                    1 / 2 * (20 / 100))) 3 = 1 / 2"
    by (simp add: py_round_def Let_def)
  ultimately show ?thesis
    by (simp add: demo_checkins_averages burnout_score_fixed)
qed

lemma fold_err_count_row_empty:
  "\<forall>r\<in>set rows. py_iter (s_time_blocks r) = Inr [] \<Longrightarrow>
   fold_err (count_row L) rows acc = Inr acc"
  by (induction rows) (simp_all add: count_row_def)

lemma required_progress_total: "0 < days \<Longrightarrow> \<exists>r. required_progress days dl = Inr r"
  by (simp add: required_progress_def py_div_def)

lemma required_progress_value:
  "0 < days \<Longrightarrow> 0 < dl \<Longrightarrow>
   required_progress days dl = Inr (real_of_int days / real_of_int (days + dl) * 100)"
  by (simp add: required_progress_def py_div_def)

lemma classify_goal_total:
  assumes "0 < days"
  shows "\<exists>acc'. classify_goal days today acc g = Inr acc'"
proof -
  obtain r where "required_progress days (days_left_of today g) = Inr r"
    using required_progress_total [OF assms] by blast
  then show ?thesis
    by (cases acc) (simp add: classify_goal_def)
qed

lemma fold_classify_goal_total:
  assumes "0 < days"
  shows "\<exists>res. fold_err (classify_goal days today) gs acc = Inr res"
proof (induction gs arbitrary: acc)
  case Nil
  show ?case by simp
next
  case (Cons g gs)
  obtain acc' where "classify_goal days today acc g = Inr acc'"
    using classify_goal_total [OF assms] by blast
  with Cons.IH [of acc'] show ?case by simp
qed

lemma burnout_risk_total: "\<exists>b. burnout_risk cs ch days = Inr b"
proof (cases "cs = []")
  case True
  then show ?thesis by (simp add: burnout_risk_def)
next
  case False
  then have len: "real (length cs) \<noteq> 0" by simp
  have d: "real_of_int (max days 1) \<noteq> 0" by simp
  show ?thesis
    using False
    by (simp add: burnout_risk_def avg_mood_def avg_focus_def energy_penalty_def
        work_hrs_avg_def py_div_nonzero [OF len] py_div_nonzero [OF d])
qed

text \<open>
  C5. When every schedule of the trailing window has an empty block list, the progress
  summary does not fail with a division by zero: it returns a summary whose completion
  rate is 0.0 (the only failure left is the one of the remote call for the insights).
\<close>

theorem completion_rate_zero_blocks:
  assumes "\<forall>r\<in>set (window_schedules today uid p st). py_iter (s_time_blocks r) = Inr []"
  shows "count_blocks L (window_schedules today uid p st) = Inr (0, 0, []) \<and>
         completion_rate_of 0 0 = Inr 0 \<and>
         (fst (get_progress_summary L today uid p st) = Inl RemoteError \<or>
          (\<exists>s. fst (get_progress_summary L today uid p st) = Inr s \<and> completion_rate s = 0)) \<and>
         ((\<forall>q. run_agent L q \<noteq> None) \<longrightarrow>
          (\<exists>s. fst (get_progress_summary L today uid p st) = Inr s \<and> completion_rate s = 0))"
proof -
  have cb: "count_blocks L (window_schedules today uid p st) = Inr (0, 0, [])"
    unfolding count_blocks_def using assms by (rule fold_err_count_row_empty)
  obtain on risk where cg:
    "classify_goals (period_days p) today (active_goals uid st) = Inr (on, risk)"
    using fold_classify_goal_total [OF period_days_pos, of p today "active_goals uid st" "([], [])"]
    unfolding classify_goals_def by (metis surj_pair)
  obtain b where br: "burnout_risk (window_checkins today uid p st) [] (period_days p) = Inr b"
    using burnout_risk_total by blast
  let ?q = "InsightsPrompt p 0 on risk b []
              (habit_streaks_of (filter (\<lambda>h. h_user_id h = uid) (habits st)))"
  have res: "fst (get_progress_summary L today uid p st) =
        (case run_agent L ?q of
           None \<Rightarrow> Inl RemoteError
         | Some insights \<Rightarrow>
             Inr \<lparr>ps_user_id = uid, period = p, completion_rate = 0,
                  goals_on_track = on, goals_at_risk = risk,
                  habit_streaks = habit_streaks_of (filter (\<lambda>h. h_user_id h = uid) (habits st)),
                  time_allocation = [], productivity_trend = [], burnout_risk_score = b,
                  ai_insights = Some insights\<rparr>)"
    by (cases "run_agent L ?q")
      (simp_all add: get_progress_summary_def cb cg br completion_rate_of_def call_agent_def
        py_round_zero Let_def)
  have one: "fst (get_progress_summary L today uid p st) = Inl RemoteError \<or>
        (\<exists>s. fst (get_progress_summary L today uid p st) = Inr s \<and> completion_rate s = 0)"
    by (cases "run_agent L ?q") (simp_all add: res)
  have two: "(\<forall>q. run_agent L q \<noteq> None) \<longrightarrow>
        (\<exists>s. fst (get_progress_summary L today uid p st) = Inr s \<and> completion_rate s = 0)"
    by (cases "run_agent L ?q") (auto simp add: res)
  from cb one two show ?thesis
    by (simp add: completion_rate_of_def)
qed

theorem completion_rate_zero_blocks_witness:
  "window_schedules 103 ''u1'' ''weekly'' demo_progress_state = schedules demo_progress_state \<and>
   (\<exists>s. fst (get_progress_summary (table_lib [] (\<lambda>p. Some ''Keep going.'')) 103 ''u1'' ''weekly''
              demo_progress_state) = Inr s \<and> completion_rate s = 0)"
proof -
  have w: "window_schedules 103 ''u1'' ''weekly'' demo_progress_state = schedules demo_progress_state"
    by (simp add: window_schedules_def demo_progress_state_def empty_state_def period_days_def)
  have z: "\<forall>r\<in>set (window_schedules 103 ''u1'' ''weekly'' demo_progress_state).
          py_iter (s_time_blocks r) = Inr []"
    by (simp add: w) (simp add: demo_progress_state_def empty_state_def py_iter_def)
  have a: "\<forall>q. run_agent (table_lib [] (\<lambda>p. Some ''Keep going.'')) q \<noteq> None"
    by (simp add: table_lib_def)
  from completion_rate_zero_blocks [OF z, of "table_lib [] (\<lambda>p. Some ''Keep going.'')"] a w
  show ?thesis by blast
qed

lemma fold_classify_goal_mono:
  "fold_err (classify_goal days today) gs (on0, risk0) = Inr (on, risk) \<Longrightarrow>
   set on0 \<subseteq> set on \<and> set risk0 \<subseteq> set risk"
proof (induction gs arbitrary: on0 risk0)
  case Nil
  then show ?case by simp
next
  case (Cons g gs)
  from Cons.prems obtain on1 risk1
    where s: "classify_goal days today (on0, risk0) g = Inr (on1, risk1)"
      and r: "fold_err (classify_goal days today) gs (on1, risk1) = Inr (on, risk)"
    by (auto split: sum.splits)
  from s have "set on0 \<subseteq> set on1 \<and> set risk0 \<subseteq> set risk1"
    by (auto simp add: classify_goal_def split: sum.splits if_splits)
  with Cons.IH [OF r] show ?case by blast
qed

lemma fold_classify_goal_member:
  assumes "fold_err (classify_goal days today) gs (on0, risk0) = Inr (on, risk)"
    and "g \<in> set gs"
    and "required_progress days (days_left_of today g) = Inr required"
  shows "if required * (85 / 100) \<le> g_progress_percent g
         then g_title g \<in> set on else g_title g \<in> set risk"
  using assms
proof (induction gs arbitrary: on0 risk0)
  case Nil
  then show ?case by simp
next
  case (Cons x gs)
  from Cons.prems(1) obtain on1 risk1
    where s: "classify_goal days today (on0, risk0) x = Inr (on1, risk1)"
      and r: "fold_err (classify_goal days today) gs (on1, risk1) = Inr (on, risk)"
    by (auto split: sum.splits)
  show ?case
  proof (cases "x = g")
    case True
    with s Cons.prems(3)
    have "if required * (85 / 100) \<le> g_progress_percent g
          then g_title g \<in> set on1 else g_title g \<in> set risk1"
      by (auto simp add: classify_goal_def split: if_splits)
    with fold_classify_goal_mono [OF r] show ?thesis
      by (auto split: if_splits)
  next
    case False
    with Cons.prems(2) have "g \<in> set gs" by simp
    from Cons.IH [OF r this Cons.prems(3)] show ?thesis .
  qed
qed

text \<open>
  C6. For a goal with a positive number of days left, with
  \<open>required = (days / (days + days_left)) * 100\<close>: the goal is put on the on-track list
  when \<open>progress_percent >= required * 0.85\<close>, in particular when the two are equal, and
  on the at-risk list otherwise. The classification of the goals never fails.
\<close>

theorem goal_on_track_boundary:
  assumes "g \<in> set goal_rows"
    and "0 < days_left_of today g"
    and "required = real_of_int (period_days p) /
                    real_of_int (period_days p + days_left_of today g) * 100"
  shows "\<exists>on_track at_risk.
           classify_goals (period_days p) today goal_rows = Inr (on_track, at_risk) \<and>
           (if required * (85 / 100) \<le> g_progress_percent g
            then g_title g \<in> set on_track else g_title g \<in> set at_risk) \<and>
           (g_progress_percent g = required * (85 / 100) \<longrightarrow> g_title g \<in> set on_track) \<and>
           classify_goal (period_days p) today (on0, risk0) g =
             (if required * (85 / 100) \<le> g_progress_percent g
              then Inr (on0 @ [g_title g], risk0) else Inr (on0, risk0 @ [g_title g]))"
proof -
  have req: "required_progress (period_days p) (days_left_of today g) = Inr required"
    using assms(2,3) by (simp add: required_progress_value [OF period_days_pos])
  obtain on_track at_risk where
    cg: "fold_err (classify_goal (period_days p) today) goal_rows ([], []) = Inr (on_track, at_risk)"
    using fold_classify_goal_total [OF period_days_pos, of p today goal_rows "([], [])"]
    by (metis surj_pair)
  have mem: "if required * (85 / 100) \<le> g_progress_percent g
             then g_title g \<in> set on_track else g_title g \<in> set at_risk"
    using fold_classify_goal_member [OF cg assms(1) req] .
  have step: "classify_goal (period_days p) today (on0, risk0) g =
             (if required * (85 / 100) \<le> g_progress_percent g
              then Inr (on0 @ [g_title g], risk0) else Inr (on0, risk0 @ [g_title g]))"
    by (simp add: classify_goal_def req)
  from cg mem step show ?thesis
    unfolding classify_goals_def by (intro exI conjI) (assumption, assumption, simp, assumption)
qed

theorem goal_on_track_boundary_witness:
  "0 < days_left_of 103 demo_goal \<and>
   g_progress_percent demo_goal = 7 / 14 * 100 * (85 / 100) \<and>
   classify_goals (period_days ''weekly'') 103 [demo_goal] = Inr ([''Run 10k''], [])"
proof -
  have g: "demo_goal \<in> set [demo_goal]" by simp
  have d: "0 < days_left_of 103 demo_goal"
    by (simp add: days_left_of_def demo_goal_def)
  have r: "7 / 14 * 100 = real_of_int (period_days ''weekly'') /
             real_of_int (period_days ''weekly'' + days_left_of 103 demo_goal) * 100"
    by (simp add: period_days_def days_left_of_def demo_goal_def)
  from goal_on_track_boundary [OF g d r, of "[]" "[]"]
  have "classify_goal (period_days ''weekly'') 103 ([], []) demo_goal =
          (if 7 / 14 * 100 * (85 / 100) \<le> g_progress_percent demo_goal
           then Inr ([] @ [g_title demo_goal], []) else Inr ([], [] @ [g_title demo_goal]))"
    by blast
  then have "classify_goal (period_days ''weekly'') 103 ([], []) demo_goal = Inr ([''Run 10k''], [])"
    by (simp add: demo_goal_def)
  then show ?thesis
    using d by (simp add: classify_goals_def demo_goal_def)
qed

lemma table_lib_simps [simp]:
  "json_loads (table_lib texts agent) = map_of texts"
  "py_int (table_lib texts agent) = digits_int"
  "TimeBlock_new (table_lib texts agent) = TimeBlock_exact"
  "float_field (table_lib texts agent) = float_exact"
  "opt_str_field (table_lib texts agent) = opt_str_exact"
  "run_agent (table_lib texts agent) = agent"
  by (simp_all add: table_lib_def)


subsection \<open>Habit check-in\<close>

text \<open>
  C7. A habit check-in whose log id is fresh inserts one habit-log row; the habit with
  the check-in's id gets streak 0 when \<open>completed\<close> is false, whatever its streak was, and
  its streak plus one and \<open>last_completed\<close> set to the check-in date when \<open>completed\<close> is
  true. Every other habit is left as it was.
\<close>

theorem habit_checkin_streak:
  assumes "log_id \<notin> set (map l_log_id (habit_logs st))"
  shows "\<exists>st'. api_habit_checkin log_id now_str uid checkin st = (Inr log_id, st') \<and>
           habit_logs st' =
             habit_logs st @
               [\<lparr>l_log_id = log_id, l_habit_id = ci_habit_id checkin, l_user_id = uid,
                 l_date = ci_date checkin, l_completed = (if ci_completed checkin then 1 else 0),
                 l_note = ci_note checkin, l_logged_at = now_str\<rparr>] \<and>
           length (habits st') = length (habits st) \<and>
           (\<forall>i < length (habits st).
              if h_habit_id (habits st ! i) = ci_habit_id checkin
              then (if ci_completed checkin
                    then h_streak_count (habits st' ! i) = h_streak_count (habits st ! i) + 1 \<and>
                         h_last_completed (habits st' ! i) = Some (ci_date checkin)
                    else h_streak_count (habits st' ! i) = 0)
              else habits st' ! i = habits st ! i)"
  using assms by (simp add: api_habit_checkin_def checkin_habit_def)

theorem habit_checkin_streak_witness:
  "h_streak_count (habits demo_habit_state ! 0) = 5 \<and>
   h_streak_count
     (habits (snd (api_habit_checkin ''log1'' ''now'' ''u1'' (demo_checkin False) demo_habit_state)) ! 0)
     = 0 \<and>
   h_streak_count
     (habits (snd (api_habit_checkin ''log1'' ''now'' ''u1'' (demo_checkin True) demo_habit_state)) ! 0)
     = 6 \<and>
   length (habit_logs
     (snd (api_habit_checkin ''log1'' ''now'' ''u1'' (demo_checkin True) demo_habit_state))) = 1"
proof -
  have fresh: "''log1'' \<notin> set (map l_log_id (habit_logs demo_habit_state))"
    by (simp add: demo_habit_state_def empty_state_def)
  have len: "0 < length (habits demo_habit_state)"
    by (simp add: demo_habit_state_def empty_state_def)
  have id: "h_habit_id (habits demo_habit_state ! 0) = ''h1''"
    and s5: "h_streak_count (habits demo_habit_state ! 0) = 5"
    and logs: "habit_logs demo_habit_state = []"
    by (simp_all add: demo_habit_state_def empty_state_def)
  from habit_checkin_streak [OF fresh, of "''now''" "''u1''" "demo_checkin False"] len id
  have a: "h_streak_count
     (habits (snd (api_habit_checkin ''log1'' ''now'' ''u1'' (demo_checkin False) demo_habit_state)) ! 0)
     = 0"
    by (auto simp add: demo_checkin_def)
  from habit_checkin_streak [OF fresh, of "''now''" "''u1''" "demo_checkin True"] len id s5 logs
  have b: "h_streak_count
     (habits (snd (api_habit_checkin ''log1'' ''now'' ''u1'' (demo_checkin True) demo_habit_state)) ! 0)
     = 6 \<and>
     length (habit_logs
       (snd (api_habit_checkin ''log1'' ''now'' ''u1'' (demo_checkin True) demo_habit_state))) = 1"
    by (auto simp add: demo_checkin_def)
  from a b s5 show ?thesis by simp
qed

subsection \<open>Coach chat\<close>





subsection \<open>Schedules\<close>

lemma Priority_of_value: "Priority_of (Priority_value p) = Some p"
  by (cases p) (simp_all add: Priority_of_def)

lemma EnergyLevel_of_value: "EnergyLevel_of (EnergyLevel_value e) = Some e"
  by (cases e) (simp_all add: EnergyLevel_of_def)

lemma TaskStatus_of_value: "TaskStatus_of (TaskStatus_value t) = Some t"
  by (cases t) (simp_all add: TaskStatus_of_def)

lemma TimeBlock_exact_model_dump: "TimeBlock_exact (model_dump b) = Some b"
  by (cases "description b"; cases "goal_id b")
    (simp_all add: TimeBlock_exact_def model_dump_def str_at_def opt_str_at_def enum_at_def
      bool_at_def opt_str_def Priority_of_value EnergyLevel_of_value TaskStatus_of_value)

lemma map_err_new_TimeBlock_dump:
  "\<forall>b\<in>set bs. TimeBlock_new L (model_dump b) = Some b \<Longrightarrow>
   map_err (new_TimeBlock L) (map (\<lambda>b. JDict (model_dump b)) bs) = Inr bs"
  by (induction bs) (simp_all add: new_TimeBlock_def)

lemma new_TimeBlocks_dump:
  "\<forall>b\<in>set bs. TimeBlock_new L (model_dump b) = Some b \<Longrightarrow>
   new_TimeBlocks L (dump_blocks bs) = Inr bs"
  by (simp add: new_TimeBlocks_def dump_blocks_def py_iter_def map_err_new_TimeBlock_dump)

lemma new_TimeBlocks_exact_dump:
  "new_TimeBlocks (table_lib texts agent) (dump_blocks bs) = Inr bs"
  by (rule new_TimeBlocks_dump) (simp add: TimeBlock_exact_model_dump)

lemma insert_or_replace_fresh:
  "s_schedule_id row \<notin> set (map s_schedule_id tbl) \<Longrightarrow>
   insert_or_replace_schedule row tbl = tbl @ [row]"
proof -
  assume "s_schedule_id row \<notin> set (map s_schedule_id tbl)"
  then have "filter (\<lambda>r. s_schedule_id r \<noteq> s_schedule_id row) tbl = tbl"
    by (induction tbl) auto
  then show ?thesis by (simp add: insert_or_replace_schedule_def)
qed

lemma demo_get_schedule:
  "get_schedule (table_lib texts agent) ''u1'' 200 demo_schedule_state = Inr (Some demo_schedule)"
  by (simp add: get_schedule_def demo_schedule_state_def empty_state_def demo_schedule_row_def
      new_TimeBlocks_exact_dump new_DailySchedule_def float_exact_def opt_str_exact_def
      demo_schedule_def)

lemma demo_blocks_at_noon:
  "missed_blocks ''12:00'' demo_blocks = [mk_block ''b2'' ''Write'' ''09:00'' ''10:00'' PENDING]"
  "remaining_blocks ''12:00'' demo_blocks = [mk_block ''b3'' ''Review'' ''14:00'' ''15:00'' PENDING]"
  "completed_blocks_of demo_blocks = [mk_block ''b1'' ''Plan'' ''08:00'' ''09:00'' COMPLETED]"
  by (simp_all add: missed_blocks_def remaining_blocks_def completed_blocks_of_def demo_blocks_def
      mk_block_def str_ge_def)

lemma demo_reply_clean:
  "clean_fenced demo_reply_text =
     ''{\"time_blocks\": [{\"block_id\": \"n1\", \"title\": \"Catch up\", \"start_time\": \"16:00\", \"end_time\": \"17:00\", \"category\": \"work\"}], \"ai_notes\": \"Moved.\"}''"
  by (simp add: clean_fenced_def demo_reply_text_def py_strip_def lstrip_by_def rstrip_by_def
      py_lstrip_chars_def py_rstrip_chars_def py_isspace_def)

lemma demo_reply_blocks:
  "new_TimeBlocks (table_lib texts agent)
     (JList [JDict [(''block_id'', JStr ''n1''), (''title'', JStr ''Catch up''),
                    (''start_time'', JStr ''16:00''), (''end_time'', JStr ''17:00''),
                    (''category'', JStr ''work'')]]) =
   Inr [mk_block ''n1'' ''Catch up'' ''16:00'' ''17:00'' PENDING]"
  by (simp add: new_TimeBlocks_def py_iter_def new_TimeBlock_def TimeBlock_exact_def str_at_def
      opt_str_at_def enum_at_def bool_at_def mk_block_def)

lemma update_schedule_blocks_rows:
  assumes "r \<in> set (update_schedule_blocks uid d blocks notes tbl)"
    and "s_user_id r = uid" and "s_date r = d"
  shows "s_time_blocks r = blocks"
proof -
  define f :: "schedule_row \<Rightarrow> schedule_row" where "f = (\<lambda>x. if s_user_id x = uid \<and> s_date x = d
              then x\<lparr>s_time_blocks := blocks, s_ai_notes := notes\<rparr> else x)"
  have "r \<in> set (map f tbl)"
    using assms(1) unfolding update_schedule_blocks_def f_def .
  then obtain x where x: "r = f x"
    by (auto simp only: set_map)
  show ?thesis
  proof (cases "s_user_id x = uid \<and> s_date x = d")
    case True
    then have "r = x\<lparr>s_time_blocks := blocks, s_ai_notes := notes\<rparr>"
      by (simp only: x f_def True simp_thms if_True)
    then show ?thesis by simp
  next
    case False
    then have "r = x" by (simp only: x f_def simp_thms if_False)
    with False assms(2,3) show ?thesis by simp
  qed
qed

text \<open>
  C3. When today's schedule has no missed block, adaptive reschedule returns it as it
  is and leaves the whole state as it was: no call of the remote model is recorded and
  no row of the schedules table changes.
\<close>

theorem reschedule_nothing_missed:
  assumes "get_schedule L uid today st = Inr (Some schedule)"
    and "missed_blocks now_str (time_blocks schedule) = []"
  shows "adaptive_reschedule_today L today now_str uid st = (Inr schedule, st) \<and>
         agent_calls (snd (adaptive_reschedule_today L today now_str uid st)) = agent_calls st \<and>
         schedules (snd (adaptive_reschedule_today L today now_str uid st)) = schedules st"
  using assms by (simp add: adaptive_reschedule_today_def)

theorem reschedule_nothing_missed_witness:
  "missed_blocks ''08:30'' (time_blocks demo_schedule) = [] \<and>
   adaptive_reschedule_today demo_planner_lib 200 ''08:30'' ''u1'' demo_schedule_state =
     (Inr demo_schedule, demo_schedule_state)"
proof -
  have g: "get_schedule demo_planner_lib ''u1'' 200 demo_schedule_state = Inr (Some demo_schedule)"
    unfolding demo_planner_lib_def by (rule demo_get_schedule)
  have m: "missed_blocks ''08:30'' (time_blocks demo_schedule) = []"
    by (simp add: missed_blocks_def demo_schedule_def demo_blocks_def mk_block_def)
  from reschedule_nothing_missed [OF g m] m show ?thesis by simp
qed

lemma reschedule_success_run:
  assumes "get_schedule L uid today st = Inr (Some schedule)"
    and "missed_blocks now_str (time_blocks schedule) \<noteq> []"
    and "run_agent L (ReschedulePrompt (length (missed_blocks now_str (time_blocks schedule))) now_str
           (missed_blocks now_str (time_blocks schedule))
           (remaining_blocks now_str (time_blocks schedule))) = Some ai_response"
    and "json_loads L (clean_fenced ai_response) = Some (JDict parsed)"
    and "new_TimeBlocks L (dict_get parsed ''time_blocks'' (JList [])) = Inr returned"
    and "sql_bindable (dict_get parsed ''ai_notes'' JNull)"
  shows "adaptive_reschedule_today L today now_str uid st =
           (Inr (schedule\<lparr>time_blocks := completed_blocks_of (time_blocks schedule) @ returned,
                           ai_notes := dict_get parsed ''ai_notes'' JNull\<rparr>),
            st\<lparr>agent_calls :=
                  agent_calls st @ [ReschedulePrompt (length (missed_blocks now_str (time_blocks schedule))) now_str
           (missed_blocks now_str (time_blocks schedule))
           (remaining_blocks now_str (time_blocks schedule))],
                schedules :=
                  update_schedule_blocks uid today
                    (dump_blocks (completed_blocks_of (time_blocks schedule) @ returned))
                    (dict_get parsed ''ai_notes'' JNull) (schedules st)\<rparr>)"
  using assms
  by (simp add: adaptive_reschedule_today_def call_agent_def extract_json_def Let_def)


text \<open>
  C4. The blocks are partitioned by the lexicographic comparison of \<open>end_time\<close> with the
  time of day: missed are the pending or skipped blocks that end before now, remaining
  the pending blocks that do not. When a block is missed and the model's reply parses
  to an object whose blocks pydantic accepts, every schedule row of the user for today
  gets the completed blocks followed by the returned blocks, whatever their ids are.
\<close>

theorem reschedule_replaces_blocks:
  assumes "get_schedule L uid today st = Inr (Some schedule)"
    and "missed = missed_blocks now_str (time_blocks schedule)"
    and "remaining = remaining_blocks now_str (time_blocks schedule)"
    and "missed \<noteq> []"
    and "run_agent L (ReschedulePrompt (length missed) now_str missed remaining) = Some ai_response"
    and "json_loads L (clean_fenced ai_response) = Some (JDict parsed)"
    and "new_TimeBlocks L (dict_get parsed ''time_blocks'' (JList [])) = Inr returned"
    and "sql_bindable (dict_get parsed ''ai_notes'' JNull)"
  shows "adaptive_reschedule_today L today now_str uid st =
           (Inr (schedule\<lparr>time_blocks := completed_blocks_of (time_blocks schedule) @ returned,
                           ai_notes := dict_get parsed ''ai_notes'' JNull\<rparr>),
            st\<lparr>agent_calls :=
                  agent_calls st @ [ReschedulePrompt (length missed) now_str missed remaining],
                schedules :=
                  update_schedule_blocks uid today
                    (dump_blocks (completed_blocks_of (time_blocks schedule) @ returned))
                    (dict_get parsed ''ai_notes'' JNull) (schedules st)\<rparr>) \<and>
         (\<forall>r \<in> set (schedules (snd (adaptive_reschedule_today L today now_str uid st))).
            s_user_id r = uid \<and> s_date r = today \<longrightarrow>
            s_time_blocks r =
              dump_blocks (completed_blocks_of (time_blocks schedule) @ returned)) \<and>
         (\<forall>b. b \<in> set missed \<longleftrightarrow>
              b \<in> set (time_blocks schedule) \<and> (status b = PENDING \<or> status b = SKIPPED) \<and>
              str_less (end_time b) now_str) \<and>
         (\<forall>b. b \<in> set remaining \<longleftrightarrow>
              b \<in> set (time_blocks schedule) \<and> status b = PENDING \<and>
              \<not> str_less (end_time b) now_str) \<and>
         (\<forall>b. b \<in> set (completed_blocks_of (time_blocks schedule)) \<longleftrightarrow>
              b \<in> set (time_blocks schedule) \<and> status b = COMPLETED)"
proof -
  have run: "adaptive_reschedule_today L today now_str uid st =
           (Inr (schedule\<lparr>time_blocks := completed_blocks_of (time_blocks schedule) @ returned,
                           ai_notes := dict_get parsed ''ai_notes'' JNull\<rparr>),
            st\<lparr>agent_calls :=
                  agent_calls st @ [ReschedulePrompt (length missed) now_str missed remaining],
                schedules :=
                  update_schedule_blocks uid today
                    (dump_blocks (completed_blocks_of (time_blocks schedule) @ returned))
                    (dict_get parsed ''ai_notes'' JNull) (schedules st)\<rparr>)"
    using assms(1,4,5,6,7,8) unfolding assms(2,3)
    by (rule reschedule_success_run)
  have rows: "\<forall>r \<in> set (schedules (snd (adaptive_reschedule_today L today now_str uid st))).
            s_user_id r = uid \<and> s_date r = today \<longrightarrow>
            s_time_blocks r =
              dump_blocks (completed_blocks_of (time_blocks schedule) @ returned)"
  proof (intro ballI impI)
    fix r
    assume r: "r \<in> set (schedules (snd (adaptive_reschedule_today L today now_str uid st)))"
      and k: "s_user_id r = uid \<and> s_date r = today"
    from r have "r \<in> set (update_schedule_blocks uid today
                    (dump_blocks (completed_blocks_of (time_blocks schedule) @ returned))
                    (dict_get parsed ''ai_notes'' JNull) (schedules st))"
      unfolding run by simp
    then show "s_time_blocks r =
              dump_blocks (completed_blocks_of (time_blocks schedule) @ returned)"
      using k by (intro update_schedule_blocks_rows) simp_all
  qed
  have parts: "(\<forall>b. b \<in> set missed \<longleftrightarrow>
              b \<in> set (time_blocks schedule) \<and> (status b = PENDING \<or> status b = SKIPPED) \<and>
              str_less (end_time b) now_str) \<and>
         (\<forall>b. b \<in> set remaining \<longleftrightarrow>
              b \<in> set (time_blocks schedule) \<and> status b = PENDING \<and>
              \<not> str_less (end_time b) now_str) \<and>
         (\<forall>b. b \<in> set (completed_blocks_of (time_blocks schedule)) \<longleftrightarrow>
              b \<in> set (time_blocks schedule) \<and> status b = COMPLETED)"
    unfolding assms(2,3)
    by (auto simp add: missed_blocks_def remaining_blocks_def completed_blocks_of_def str_ge_def)
  show ?thesis
    by (rule conjI, rule run, rule conjI, rule rows, rule parts)
qed

theorem reschedule_replaces_blocks_witness:
  "map block_id (time_blocks demo_schedule) = [''b1'', ''b2'', ''b3''] \<and>
   fst (adaptive_reschedule_today demo_planner_lib 200 ''12:00'' ''u1'' demo_schedule_state) =
     Inr (demo_schedule
            \<lparr>time_blocks := [mk_block ''b1'' ''Plan'' ''08:00'' ''09:00'' COMPLETED,
                             mk_block ''n1'' ''Catch up'' ''16:00'' ''17:00'' PENDING],
             ai_notes := JStr ''Moved.''\<rparr>) \<and>
   map s_time_blocks
     (schedules (snd (adaptive_reschedule_today demo_planner_lib 200 ''12:00'' ''u1''
        demo_schedule_state))) =
     [dump_blocks [mk_block ''b1'' ''Plan'' ''08:00'' ''09:00'' COMPLETED,
                   mk_block ''n1'' ''Catch up'' ''16:00'' ''17:00'' PENDING]]"
proof -
  let ?missed = "[mk_block ''b2'' ''Write'' ''09:00'' ''10:00'' PENDING]"
  let ?remaining = "[mk_block ''b3'' ''Review'' ''14:00'' ''15:00'' PENDING]"
  have tb: "time_blocks demo_schedule = demo_blocks"
    by (simp add: demo_schedule_def)
  have g: "get_schedule demo_planner_lib ''u1'' 200 demo_schedule_state = Inr (Some demo_schedule)"
    unfolding demo_planner_lib_def by (rule demo_get_schedule)
  have m: "?missed = missed_blocks ''12:00'' (time_blocks demo_schedule)"
    and r: "?remaining = remaining_blocks ''12:00'' (time_blocks demo_schedule)"
    by (simp_all add: tb demo_blocks_at_noon)
  have ne: "?missed \<noteq> []" by simp
  have a: "run_agent demo_planner_lib (ReschedulePrompt (length ?missed) ''12:00'' ?missed ?remaining)
             = Some demo_reply_text"
    by (simp add: demo_planner_lib_def)
  have p: "json_loads demo_planner_lib (clean_fenced demo_reply_text) =
             Some (JDict [(''time_blocks'',
                           JList [JDict [(''block_id'', JStr ''n1''), (''title'', JStr ''Catch up''),
                                         (''start_time'', JStr ''16:00''), (''end_time'', JStr ''17:00''),
                                         (''category'', JStr ''work'')]]),
                          (''ai_notes'', JStr ''Moved.'')])"
    by (simp add: demo_reply_clean demo_planner_lib_def demo_reply_json_def)
  have v: "new_TimeBlocks demo_planner_lib
             (dict_get [(''time_blocks'',
                           JList [JDict [(''block_id'', JStr ''n1''), (''title'', JStr ''Catch up''),
                                         (''start_time'', JStr ''16:00''), (''end_time'', JStr ''17:00''),
                                         (''category'', JStr ''work'')]]),
                          (''ai_notes'', JStr ''Moved.'')] ''time_blocks'' (JList [])) =
           Inr [mk_block ''n1'' ''Catch up'' ''16:00'' ''17:00'' PENDING]"
    unfolding demo_planner_lib_def by (simp add: dict_get_def demo_reply_blocks)
  have b: "sql_bindable (dict_get [(''time_blocks'',
                           JList [JDict [(''block_id'', JStr ''n1''), (''title'', JStr ''Catch up''),
                                         (''start_time'', JStr ''16:00''), (''end_time'', JStr ''17:00''),
                                         (''category'', JStr ''work'')]]),
                          (''ai_notes'', JStr ''Moved.'')] ''ai_notes'' JNull)"
    by (simp add: dict_get_def sql_bindable_def)
  from reschedule_replaces_blocks [OF g m r ne a p v b, THEN conjunct1]
  show ?thesis
    by (simp add: tb demo_blocks_at_noon dict_get_def)
      (simp add: demo_schedule_state_def empty_state_def update_schedule_blocks_def
        demo_schedule_row_def demo_blocks_def mk_block_def)
qed

text \<open>
  C10. When a block is missed and the model's reply is no JSON, the stored and the
  returned block list is the completed blocks followed by the remaining pending
  blocks: no missed block is in it.
\<close>

theorem reschedule_parse_failure:
  assumes "get_schedule L uid today st = Inr (Some schedule)"
    and "missed = missed_blocks now_str (time_blocks schedule)"
    and "remaining = remaining_blocks now_str (time_blocks schedule)"
    and "missed \<noteq> []"
    and "run_agent L (ReschedulePrompt (length missed) now_str missed remaining) = Some ai_response"
    and "json_loads L (clean_fenced ai_response) = None"
    and "\<forall>b\<in>set remaining. TimeBlock_new L (model_dump b) = Some b"
  shows "adaptive_reschedule_today L today now_str uid st =
           (Inr (schedule\<lparr>time_blocks := completed_blocks_of (time_blocks schedule) @ remaining,
                           ai_notes := JStr ''No change.''\<rparr>),
            st\<lparr>agent_calls :=
                  agent_calls st @ [ReschedulePrompt (length missed) now_str missed remaining],
                schedules :=
                  update_schedule_blocks uid today
                    (dump_blocks (completed_blocks_of (time_blocks schedule) @ remaining))
                    (JStr ''No change.'') (schedules st)\<rparr>) \<and>
         set missed \<inter> set (completed_blocks_of (time_blocks schedule) @ remaining) = {}"
proof -
  have blocks: "new_TimeBlocks L (dump_blocks remaining) = Inr remaining"
    using assms(7) by (rule new_TimeBlocks_dump)
  have run: "adaptive_reschedule_today L today now_str uid st =
           (Inr (schedule\<lparr>time_blocks := completed_blocks_of (time_blocks schedule) @ remaining,
                           ai_notes := JStr ''No change.''\<rparr>),
            st\<lparr>agent_calls :=
                  agent_calls st @ [ReschedulePrompt (length missed) now_str missed remaining],
                schedules :=
                  update_schedule_blocks uid today
                    (dump_blocks (completed_blocks_of (time_blocks schedule) @ remaining))
                    (JStr ''No change.'') (schedules st)\<rparr>)"
    using assms(1,4,5,6) blocks unfolding assms(2,3)
    by (simp add: adaptive_reschedule_today_def call_agent_def extract_json_def Let_def
        reschedule_default_def dict_get_def sql_bindable_def)
  have "set missed \<inter> set (completed_blocks_of (time_blocks schedule) @ remaining) = {}"
    unfolding assms(2,3)
    by (auto simp add: missed_blocks_def remaining_blocks_def completed_blocks_of_def str_ge_def)
  with run show ?thesis by (intro conjI)
qed

theorem reschedule_parse_failure_witness:
  "map block_id (missed_blocks ''12:00'' (time_blocks demo_schedule)) = [''b2''] \<and>
   map block_id
     (case fst (adaptive_reschedule_today demo_prose_lib 200 ''12:00'' ''u1'' demo_schedule_state) of
        Inl e \<Rightarrow> [] | Inr s \<Rightarrow> time_blocks s) = [''b1'', ''b3''] \<and>
   map s_time_blocks
     (schedules (snd (adaptive_reschedule_today demo_prose_lib 200 ''12:00'' ''u1''
        demo_schedule_state))) =
     [dump_blocks [mk_block ''b1'' ''Plan'' ''08:00'' ''09:00'' COMPLETED,
                   mk_block ''b3'' ''Review'' ''14:00'' ''15:00'' PENDING]]"
proof -
  let ?missed = "[mk_block ''b2'' ''Write'' ''09:00'' ''10:00'' PENDING]"
  let ?remaining = "[mk_block ''b3'' ''Review'' ''14:00'' ''15:00'' PENDING]"
  have tb: "time_blocks demo_schedule = demo_blocks"
    by (simp add: demo_schedule_def)
  have g: "get_schedule demo_prose_lib ''u1'' 200 demo_schedule_state = Inr (Some demo_schedule)"
    unfolding demo_prose_lib_def by (rule demo_get_schedule)
  have m: "?missed = missed_blocks ''12:00'' (time_blocks demo_schedule)"
    and r: "?remaining = remaining_blocks ''12:00'' (time_blocks demo_schedule)"
    by (simp_all add: tb demo_blocks_at_noon)
  have ne: "?missed \<noteq> []" by simp
  have a: "run_agent demo_prose_lib (ReschedulePrompt (length ?missed) ''12:00'' ?missed ?remaining)
             = Some ''Sorry, I cannot help with that.''"
    by (simp add: demo_prose_lib_def)
  have p: "json_loads demo_prose_lib (clean_fenced ''Sorry, I cannot help with that.'') = None"
    by (simp add: demo_prose_lib_def)
  have v: "\<forall>b\<in>set ?remaining. TimeBlock_new demo_prose_lib (model_dump b) = Some b"
    by (simp add: demo_prose_lib_def TimeBlock_exact_model_dump)
  from reschedule_parse_failure [OF g m r ne a p v, THEN conjunct1]
  show ?thesis
    by (simp add: tb demo_blocks_at_noon)
      (simp add: demo_schedule_state_def empty_state_def update_schedule_blocks_def
        demo_schedule_row_def demo_blocks_def mk_block_def)
qed

text \<open>
  C2 (a defect of the code). \<open>INSERT OR REPLACE\<close> replaces on a conflict of
  \<open>schedule_id\<close>, the only unique column, and the new row carries a fresh uuid: generating
  a schedule for a user and date that have one leaves two rows for the pair, and the
  retrieval (the first row of the scan) still gives the old schedule with its old
  blocks.
\<close>

theorem generate_schedule_keeps_old_row:
  "get_schedule demo_planner_lib ''u1'' 200 demo_schedule_state = Inr (Some demo_schedule) \<and>
   fst (generate_schedule demo_planner_lib demo_uuids ''2026-07-19T11:00:00''
          demo_generate_request demo_schedule_state) =
     Inr \<lparr>schedule_id = ''s2'', user_id = ''u1'', date = 200,
          time_blocks = [mk_block ''n1'' ''Catch up'' ''16:00'' ''17:00'' PENDING],
          total_work_hours = 0, productivity_score = None, ai_notes = JStr ''Moved.'',
          created_at = ''2026-07-19T11:00:00''\<rparr> \<and>
   map s_schedule_id
     (filter (\<lambda>r. s_user_id r = ''u1'' \<and> s_date r = 200)
        (schedules (snd (generate_schedule demo_planner_lib demo_uuids ''2026-07-19T11:00:00''
           demo_generate_request demo_schedule_state)))) = [''s1'', ''s2''] \<and>
   get_schedule demo_planner_lib ''u1'' 200
     (snd (generate_schedule demo_planner_lib demo_uuids ''2026-07-19T11:00:00''
        demo_generate_request demo_schedule_state)) = Inr (Some demo_schedule)"
proof -
  have g: "get_schedule demo_planner_lib ''u1'' 200 demo_schedule_state = Inr (Some demo_schedule)"
    unfolding demo_planner_lib_def by (rule demo_get_schedule)
  have parsed: "extract_json demo_planner_lib demo_reply_text schedule_default = demo_reply_json"
    by (simp add: extract_json_def demo_reply_clean demo_planner_lib_def)
  have ids: "with_block_ids demo_uuids
               (JList [JDict [(''block_id'', JStr ''n1''), (''title'', JStr ''Catch up''),
                              (''start_time'', JStr ''16:00''), (''end_time'', JStr ''17:00''),
                              (''category'', JStr ''work'')]]) =
             Inr (JList [JDict [(''block_id'', JStr ''n1''), (''title'', JStr ''Catch up''),
                              (''start_time'', JStr ''16:00''), (''end_time'', JStr ''17:00''),
                              (''category'', JStr ''work'')]])"
    by (simp add: with_block_ids_def dict_get_def py_truthy_def)
  have blocks: "new_TimeBlocks demo_planner_lib
     (JList [JDict [(''block_id'', JStr ''n1''), (''title'', JStr ''Catch up''),
                    (''start_time'', JStr ''16:00''), (''end_time'', JStr ''17:00''),
                    (''category'', JStr ''work'')]]) =
     Inr [mk_block ''n1'' ''Catch up'' ''16:00'' ''17:00'' PENDING]"
    unfolding demo_planner_lib_def by (rule demo_reply_blocks)
  have old_blocks: "new_TimeBlocks demo_planner_lib (dump_blocks demo_blocks) = Inr demo_blocks"
    unfolding demo_planner_lib_def by (rule new_TimeBlocks_exact_dump)
  have agent: "run_agent demo_planner_lib = (\<lambda>p. Some demo_reply_text)"
    by (simp add: demo_planner_lib_def)
  have fields: "float_field demo_planner_lib = float_exact"
    "opt_str_field demo_planner_lib = opt_str_exact"
    by (simp_all add: demo_planner_lib_def)
  have run: "generate_schedule demo_planner_lib demo_uuids ''2026-07-19T11:00:00''
          demo_generate_request demo_schedule_state =
     (Inr \<lparr>schedule_id = ''s2'', user_id = ''u1'', date = 200,
          time_blocks = [mk_block ''n1'' ''Catch up'' ''16:00'' ''17:00'' PENDING],
          total_work_hours = 0, productivity_score = None, ai_notes = JStr ''Moved.'',
          created_at = ''2026-07-19T11:00:00''\<rparr>,
      demo_schedule_state
        \<lparr>agent_calls :=
           [SchedulePrompt 200 (JDict []) [] (Some ''None'')],
         schedules :=
           [demo_schedule_row,
            \<lparr>s_schedule_id = ''s2'', s_user_id = ''u1'', s_date = 200,
             s_time_blocks =
               JList [JDict [(''block_id'', JStr ''n1''), (''title'', JStr ''Catch up''),
                             (''start_time'', JStr ''16:00''), (''end_time'', JStr ''17:00''),
                             (''category'', JStr ''work'')]],
             s_total_work_hrs = JFloat 0, s_ai_notes = JStr ''Moved.'',
             s_created_at = ''2026-07-19T11:00:00''\<rparr>]\<rparr>)"
    by (simp add: generate_schedule_def demo_generate_request_def demo_schedule_state_def
        empty_state_def call_agent_def agent parsed demo_reply_json_def dict_get_def ids blocks
        sql_bindable_def Let_def schedule_goals_def context_or_None_def demo_uuids_def
        insert_or_replace_schedule_def demo_schedule_row_def new_DailySchedule_def fields
        float_exact_def opt_str_exact_def)
  have st': "snd (generate_schedule demo_planner_lib demo_uuids ''2026-07-19T11:00:00''
        demo_generate_request demo_schedule_state) =
      demo_schedule_state
        \<lparr>agent_calls :=
           [SchedulePrompt 200 (JDict []) [] (Some ''None'')],
         schedules :=
           [demo_schedule_row,
            \<lparr>s_schedule_id = ''s2'', s_user_id = ''u1'', s_date = 200,
             s_time_blocks =
               JList [JDict [(''block_id'', JStr ''n1''), (''title'', JStr ''Catch up''),
                             (''start_time'', JStr ''16:00''), (''end_time'', JStr ''17:00''),
                             (''category'', JStr ''work'')]],
             s_total_work_hrs = JFloat 0, s_ai_notes = JStr ''Moved.'',
             s_created_at = ''2026-07-19T11:00:00''\<rparr>]\<rparr>"
    by (simp only: run snd_conv)
  have after: "get_schedule demo_planner_lib ''u1'' 200
     (snd (generate_schedule demo_planner_lib demo_uuids ''2026-07-19T11:00:00''
        demo_generate_request demo_schedule_state)) = Inr (Some demo_schedule)"
    unfolding st'
    by (simp add: get_schedule_def demo_schedule_row_def old_blocks new_DailySchedule_def fields
        float_exact_def opt_str_exact_def demo_schedule_def)
  have rows: "map s_schedule_id
     (filter (\<lambda>r. s_user_id r = ''u1'' \<and> s_date r = 200)
        (schedules (snd (generate_schedule demo_planner_lib demo_uuids ''2026-07-19T11:00:00''
           demo_generate_request demo_schedule_state)))) = [''s1'', ''s2'']"
    unfolding st' by (simp add: demo_schedule_row_def)
  have res: "fst (generate_schedule demo_planner_lib demo_uuids ''2026-07-19T11:00:00''
          demo_generate_request demo_schedule_state) =
     Inr \<lparr>schedule_id = ''s2'', user_id = ''u1'', date = 200,
          time_blocks = [mk_block ''n1'' ''Catch up'' ''16:00'' ''17:00'' PENDING],
          total_work_hours = 0, productivity_score = None, ai_notes = JStr ''Moved.'',
          created_at = ''2026-07-19T11:00:00''\<rparr>"
    by (simp only: run fst_conv)
  show ?thesis
    by (rule conjI, rule g, rule conjI, rule res, rule conjI, rule rows, rule after)
qed

subsection \<open>Response extraction\<close>

lemma lstrip_by_append:
  assumes "\<forall>c\<in>set pre. p c" and "x \<noteq> []" and "\<not> p (hd x)"
  shows "lstrip_by p (pre @ x) = x"
proof -
  have "dropWhile p (pre @ x) = dropWhile p x"
    using assms(1) by (simp add: dropWhile_append2)
  also have "dropWhile p x = x"
    using assms(2,3) by (cases x) simp_all
  finally show ?thesis by (simp add: lstrip_by_def)
qed

lemma rstrip_by_append:
  assumes "\<forall>c\<in>set post. p c" and "x \<noteq> []" and "\<not> p (last x)"
  shows "rstrip_by p (x @ post) = x"
proof -
  have "lstrip_by p (rev post @ rev x) = rev x"
    using assms by (intro lstrip_by_append) (simp_all add: hd_rev)
  then show ?thesis
    by (simp add: rstrip_by_def lstrip_by_def)
qed

lemma py_strip_core:
  assumes "\<forall>c\<in>set pre. py_isspace c" and "\<forall>c\<in>set post. py_isspace c"
    and "x \<noteq> []" and "\<not> py_isspace (hd x)" and "\<not> py_isspace (last x)"
  shows "py_strip (pre @ x @ post) = x"
proof -
  have "x @ post \<noteq> []" and "\<not> py_isspace (hd (x @ post))"
    using assms(3,4) by simp_all
  with assms(1) have "lstrip_by py_isspace (pre @ x @ post) = x @ post"
    by (intro lstrip_by_append)
  with assms(2,3,5) show ?thesis
    by (simp add: py_strip_def rstrip_by_append)
qed

lemma py_strip_split:
  "\<exists>a b. t = a @ py_strip t @ b \<and> (\<forall>c\<in>set a. py_isspace c) \<and> (\<forall>c\<in>set b. py_isspace c)"
proof -
  let ?s = "dropWhile py_isspace t"
  have t: "t = takeWhile py_isspace t @ ?s"
    by simp
  have "rev (takeWhile py_isspace (rev ?s) @ dropWhile py_isspace (rev ?s)) = ?s"
    by (simp only: takeWhile_dropWhile_id rev_rev_ident)
  then have "rev (dropWhile py_isspace (rev ?s)) @ rev (takeWhile py_isspace (rev ?s)) = ?s"
    by (simp only: rev_append)
  then have s: "?s = py_strip t @ rev (takeWhile py_isspace (rev ?s))"
    by (simp only: py_strip_def rstrip_by_def lstrip_by_def)
  have a: "\<forall>c\<in>set (takeWhile py_isspace t). py_isspace c"
    by (auto dest: set_takeWhileD)
  have b: "\<forall>c\<in>set (rev (takeWhile py_isspace (rev ?s))). py_isspace c"
    by (auto dest: set_takeWhileD)
  from t s have "t = takeWhile py_isspace t @ py_strip t @ rev (takeWhile py_isspace (rev ?s))"
    by simp
  with a b show ?thesis by blast
qed

lemma fence_chars_not_space: "c \<in> set ''```json'' \<Longrightarrow> \<not> py_isspace c"
  by (auto simp add: py_isspace_def)

lemma brace_not_fence:
  "CHR ''{'' \<notin> set ''```json''" "CHR ''}'' \<notin> set ''```json''"
  "\<not> py_isspace CHR ''{''" "\<not> py_isspace CHR ''}''"
  by (simp_all add: py_isspace_def)

lemma wrapped_object_ends:
  assumes "py_strip t \<noteq> []" and "hd (py_strip t) = CHR ''{''" and "last (py_strip t) = CHR ''}''"
  shows "t \<noteq> [] \<and> hd t \<notin> set ''```json'' \<and> last t \<notin> set ''```json''"
proof -
  obtain a b where t: "t = a @ py_strip t @ b"
    and a: "\<forall>c\<in>set a. py_isspace c" and b: "\<forall>c\<in>set b. py_isspace c"
    using py_strip_split by blast
  have ne: "t \<noteq> []"
    using t assms(1) by auto
  have h: "hd t \<notin> set ''```json''"
  proof (cases a)
    case Nil
    with t assms(1) have "hd t = hd (py_strip t)"
      by (metis append_Nil hd_append2)
    with assms(2) brace_not_fence(1) show ?thesis by simp
  next
    case (Cons c cs)
    with t have "hd t = c"
      by (metis append_Cons list.sel(1))
    moreover from a Cons have "py_isspace c" by simp
    ultimately have "py_isspace (hd t)" by simp
    then show ?thesis
      using fence_chars_not_space by blast
  qed
  have l: "last t \<notin> set ''```json''"
  proof (cases "b = []")
    case True
    with t assms(1) have "last t = last (py_strip t)"
      by (metis append_Nil2 last_appendR)
    with assms(3) brace_not_fence(2) show ?thesis by simp
  next
    case False
    with t have "last t = last b"
      by (metis append_assoc last_appendR)
    moreover from b False have "py_isspace (last b)" by simp
    ultimately have "py_isspace (last t)" by simp
    then show ?thesis
      using fence_chars_not_space by blast
  qed
  from ne h l show ?thesis by simp
qed

lemma clean_fenced_wrapped:
  assumes "raw = pre @ ''```json'' @ t @ ''```'' @ post"
    and "\<forall>c\<in>set pre. py_isspace c" and "\<forall>c\<in>set post. py_isspace c"
    and "py_strip t \<noteq> []" and "hd (py_strip t) = CHR ''{''" and "last (py_strip t) = CHR ''}''"
  shows "clean_fenced raw = py_strip t" and "clean_fenced_coach raw = py_strip t"
proof -
  from wrapped_object_ends [OF assms(4,5,6)]
  have ne: "t \<noteq> []" and h: "hd t \<notin> set ''```json''" and l: "last t \<notin> set ''```json''"
    by simp_all
  have hb: "hd t \<notin> set ''```''" and lb: "last t \<notin> set ''```''"
    using h l by auto
  have s1: "py_strip raw = ''```json'' @ t @ ''```''"
  proof -
    have "py_strip (pre @ (''```json'' @ t @ ''```'') @ post) = ''```json'' @ t @ ''```''"
      using assms(2,3) by (intro py_strip_core) (simp_all add: py_isspace_def)
    then show ?thesis by (simp add: assms(1))
  qed
  have s2: "py_lstrip_chars ''```json'' (''```json'' @ t @ ''```'') = t @ ''```''"
    unfolding py_lstrip_chars_def using ne h
    by (intro lstrip_by_append) simp_all
  have s3: "py_lstrip_chars ''```'' (t @ ''```'') = t @ ''```''"
  proof -
    have "lstrip_by (\<lambda>c. c \<in> set ''```'') ([] @ (t @ ''```'')) = t @ ''```''"
      using ne hb by (intro lstrip_by_append) simp_all
    then show ?thesis by (simp add: py_lstrip_chars_def)
  qed
  have s4: "py_rstrip_chars ''```'' (t @ ''```'') = t"
    unfolding py_rstrip_chars_def using ne lb
    by (intro rstrip_by_append) simp_all
  have s5: "py_rstrip_chars ''```json'' (t @ ''```'') = t"
    unfolding py_rstrip_chars_def using ne l
    by (intro rstrip_by_append) simp_all
  have s6: "py_strip_chars ''```'' t = t"
  proof -
    have "lstrip_by (\<lambda>c. c \<in> set ''```'') ([] @ t) = t"
      using ne hb by (intro lstrip_by_append) simp_all
    moreover have "rstrip_by (\<lambda>c. c \<in> set ''```'') (t @ []) = t"
      using ne lb by (intro rstrip_by_append) simp_all
    ultimately show ?thesis
      by (simp add: py_strip_chars_def py_lstrip_chars_def py_rstrip_chars_def)
  qed
  show "clean_fenced raw = py_strip t"
    by (simp only: clean_fenced_def s1 s2 s3 s4)
  show "clean_fenced_coach raw = py_strip t"
    by (simp only: clean_fenced_coach_def py_strip_chars_def [of "''```json''"] s1 s2 s5 s6)
qed

text \<open>
  C8. Response extraction returns a value for every text. For a JSON object \<open>t\<close> wrapped
  in \<open>```json\<close> and \<open>```\<close> (with white space around the fences or the object), the text
  handed to the parser is \<open>t\<close> without the white space around it, so the extracted
  value is the one \<open>json.loads\<close> gives for \<open>t\<close>. When the cleaned text does not parse, the
  default of the capability is returned: the given default, or
  \<open>{reply: raw, suggested_actions: []}\<close> in \<open>run_coach\<close>.
\<close>

theorem response_extraction:
  assumes "raw = pre @ ''```json'' @ t @ ''```'' @ post"
    and "\<forall>c\<in>set pre. py_isspace c" and "\<forall>c\<in>set post. py_isspace c"
    and "py_strip t \<noteq> []" and "hd (py_strip t) = CHR ''{''" and "last (py_strip t) = CHR ''}''"
    and "json_loads L (py_strip t) = json_loads L t"
  shows "clean_fenced raw = py_strip t \<and> clean_fenced_coach raw = py_strip t \<and>
         extract_json L raw dflt = (case json_loads L t of None \<Rightarrow> dflt | Some v \<Rightarrow> v) \<and>
         extract_coach L raw = (case json_loads L t of None \<Rightarrow> coach_default raw | Some v \<Rightarrow> v) \<and>
         (json_loads L (clean_fenced text) = None \<longrightarrow> extract_json L text dflt = dflt) \<and>
         (json_loads L (clean_fenced_coach text) = None \<longrightarrow>
            extract_coach L text = coach_default text) \<and>
         (extract_json L text dflt = dflt \<or>
          json_loads L (clean_fenced text) = Some (extract_json L text dflt)) \<and>
         (extract_coach L text = coach_default text \<or>
          json_loads L (clean_fenced_coach text) = Some (extract_coach L text))"
proof -
  note c = clean_fenced_wrapped [OF assms(1-6)]
  have e1: "extract_json L raw dflt = (case json_loads L t of None \<Rightarrow> dflt | Some v \<Rightarrow> v)"
    by (simp add: extract_json_def c assms(7))
  have e2: "extract_coach L raw = (case json_loads L t of None \<Rightarrow> coach_default raw | Some v \<Rightarrow> v)"
    by (simp add: extract_coach_def c assms(7))
  have d1: "json_loads L (clean_fenced text) = None \<longrightarrow> extract_json L text dflt = dflt"
    by (simp add: extract_json_def)
  have d2: "json_loads L (clean_fenced_coach text) = None \<longrightarrow>
            extract_coach L text = coach_default text"
    by (simp add: extract_coach_def)
  have t1: "extract_json L text dflt = dflt \<or>
          json_loads L (clean_fenced text) = Some (extract_json L text dflt)"
    by (cases "json_loads L (clean_fenced text)") (simp_all add: extract_json_def)
  have t2: "extract_coach L text = coach_default text \<or>
          json_loads L (clean_fenced_coach text) = Some (extract_coach L text)"
    by (cases "json_loads L (clean_fenced_coach text)") (simp_all add: extract_coach_def)
  from c e1 e2 d1 d2 t1 t2 show ?thesis
    by (intro conjI)
qed

theorem response_extraction_witness:
  "extract_json demo_fence_lib demo_reply_text schedule_default = demo_reply_json \<and>
   extract_coach demo_fence_lib demo_reply_text = demo_reply_json \<and>
   extract_json demo_fence_lib ''Sorry, I cannot help with that.'' schedule_default =
     schedule_default \<and>
   extract_coach demo_fence_lib ''Sorry, I cannot help with that.'' =
     JDict [(''reply'', JStr ''Sorry, I cannot help with that.''), (''suggested_actions'', JList [])]"
proof -
  let ?t = "[CHR 0x0A] @ demo_reply_object @ [CHR 0x0A]"
  have raw: "demo_reply_text = [] @ ''```json'' @ ?t @ ''```'' @ []"
    by (simp add: demo_reply_text_def demo_reply_object_def)
  have ws: "\<forall>c\<in>set ([] :: string). py_isspace c"
    by simp
  have core: "py_strip ?t = demo_reply_object"
  proof -
    have "py_strip ([CHR 0x0A] @ demo_reply_object @ [CHR 0x0A]) = demo_reply_object"
      by (rule py_strip_core) (simp_all add: py_isspace_def demo_reply_object_def)
    then show ?thesis .
  qed
  have ne: "py_strip ?t \<noteq> []" and h: "hd (py_strip ?t) = CHR ''{''"
    and l: "last (py_strip ?t) = CHR ''}''"
    unfolding core by (simp_all add: demo_reply_object_def)
  have obj_ne: "demo_reply_object \<noteq> CHR 0x0A # demo_reply_object @ [CHR 0x0A]"
    by (simp add: demo_reply_object_def)
  have p: "json_loads demo_fence_lib (py_strip ?t) = json_loads demo_fence_lib ?t"
    unfolding core using obj_ne by (simp add: demo_fence_lib_def)
  have v: "json_loads demo_fence_lib ?t = Some demo_reply_json"
    using obj_ne by (simp add: demo_fence_lib_def)
  have n1: "json_loads demo_fence_lib (clean_fenced ''Sorry, I cannot help with that.'') = None"
    by (simp add: demo_fence_lib_def clean_fenced_def py_strip_def lstrip_by_def rstrip_by_def
        py_lstrip_chars_def py_rstrip_chars_def py_isspace_def demo_reply_object_def)
  have n2: "json_loads demo_fence_lib (clean_fenced_coach ''Sorry, I cannot help with that.'') = None"
    by (simp add: demo_fence_lib_def clean_fenced_coach_def py_strip_def lstrip_by_def
        rstrip_by_def py_strip_chars_def py_lstrip_chars_def py_rstrip_chars_def py_isspace_def
        demo_reply_object_def)
  from response_extraction [OF raw ws ws ne h l p, of schedule_default
      "''Sorry, I cannot help with that.''"] v n1 n2
  show ?thesis
    by (simp add: coach_default_def)
qed

end
